theory Spec2Isabelle
  imports Complex_Main "HOL-Library.Sublist" "HOL-Library.AList"
begin

section \<open>Data model (types.ts)\<close>

text \<open>
  A JavaScript \<^verbatim>\<open>number\<close> is modelled as a rational: the claims only ask whether a
  number is zero (truthiness) and compare times. NaN and the infinities, which JSON
  cannot carry, are left out. An optional field (\<^verbatim>\<open>f?: T\<close>) and a nullable one
  (\<^verbatim>\<open>T | null\<close>) are an \<open>option\<close>. Unions of string literals are datatypes;
  the literals that only the screens read (theme, font size, default views, chart type)
  stay strings.
\<close>

type_synonym number = rat

datatype TransactionType = Income | Expense | Transfer

datatype AccountKey = Cash | Bank | WalletKey

datatype CategoryType = CatIncome | CatExpense

datatype Role = Owner | Editor | Viewer

datatype AutoBackup = Off | Daily | Weekly

datatype NotificationType = Success | Failure | Info

record Account =
  acc_id :: string
  acc_key :: AccountKey
  acc_name :: string

record Category =
  cat_id :: string
  cat_name :: string
  cat_type :: CategoryType
  cat_subCategories :: "string list"

record Transaction =
  tx_id :: string
  tx_type :: TransactionType
  tx_amount :: number
  tx_date :: string
  tx_note :: string
  tx_accountId :: "string option"
  tx_categoryId :: "string option"
  tx_subCategory :: "string option"
  tx_fromAccountId :: "string option"
  tx_toAccountId :: "string option"
  tx_receiptUrl :: "string option"
  tx_merchantName :: "string option"
  tx_isFlagged :: "bool option"
  tx_user_id :: "string option"
  tx_isPendingSync :: "bool option"

record AppSettings =
  currency :: string
  currencies :: "string list"
  deletedCurrencies :: "string list"
  theme :: string
  fontSize :: string
  language :: string
  deletedLanguages :: "string list"
  archivedCustomLanguages :: "(string \<times> (string \<times> string) list) list"
  defaultDashboardView :: string
  defaultReportView :: string
  defaultExportView :: string
  showBudgetOnDashboard :: bool
  showCategoryBudgetsOnDashboard :: bool
  hiddenCategoryBudgets :: "string list"
  showFinancialOverviewChart :: bool
  showAccountsOnDashboard :: bool
  showQuickActionsOnDashboard :: bool
  showAIInsightsOnDashboard :: bool
  showFinancialHealthScore :: bool
  reportChartType :: string
  automationThreshold :: number
  autoBackup :: AutoBackup
  enableRealtime :: bool

record CategoryBudget =
  cb_categoryId :: string
  cb_amount :: number

record UserProfile =
  up_id :: string
  up_email :: "string option"
  up_name :: string
  up_address :: "string option"
  up_photoURL :: "string option"
  up_createdAt :: string
  up_lastSignIn :: "string option"
  up_emailVerified :: bool

record Wallet =
  w_id :: string
  w_name :: string
  w_currency :: string
  w_role :: Role
  w_created_at :: "string option"
  w_is_shared :: bool

record SyncState =
  isLoggedIn :: bool
  user :: "UserProfile option"
  lastSync :: "string option"
  backupSize :: "string option"
  pendingRestoreAvailable :: bool
  isOnline :: bool
  pendingActionsCount :: nat
  isSyncing :: "bool option"
  syncStatusMessage :: "string option"
  isRealtimeConnected :: bool
  unsyncedChanges :: bool
  activeWalletId :: "string option"
  isPasswordRecovery :: "bool option"

record Notification =
  n_id :: int
  n_message :: string
  n_type :: NotificationType

subsection \<open>JavaScript truthiness\<close>

text \<open>
  \<^verbatim>\<open>if (x)\<close>, \<^verbatim>\<open>!x\<close> and \<^verbatim>\<open>x || y\<close> test truthiness: null and undefined are
  falsy, a string is falsy when empty, a number when zero; every array and every object
  is truthy, the empty array too.
\<close>

definition truthy_string :: "string option \<Rightarrow> bool" where
  "truthy_string s = (case s of None \<Rightarrow> False | Some x \<Rightarrow> x \<noteq> [])"

definition truthy_number :: "number option \<Rightarrow> bool" where
  "truthy_number n = (case n of None \<Rightarrow> False | Some x \<Rightarrow> x \<noteq> 0)"

definition truthy_object :: "'a option \<Rightarrow> bool" where
  "truthy_object v = (case v of None \<Rightarrow> False | Some _ \<Rightarrow> True)"

text \<open>\<^verbatim>\<open>s || d\<close> on a string: the default when \<open>s\<close> is empty.\<close>

definition or_default :: "string \<Rightarrow> string \<Rightarrow> string" where
  "or_default s d = (if s = [] then d else s)"

text \<open>
  \<^verbatim>\<open>new Date(s).getTime()\<close> is the browser's: it is a parameter \<open>getTime\<close> of the
  functions that call it, \<open>None\<close> being NaN (an invalid date). Every comparison with
  NaN is false.
\<close>

type_synonym date_parser = "string \<Rightarrow> int option"

definition js_gt :: "int option \<Rightarrow> int option \<Rightarrow> bool" where
  "js_gt a b = (case (a, b) of (Some x, Some y) \<Rightarrow> x > y | _ \<Rightarrow> False)"

definition js_minus :: "int option \<Rightarrow> int option \<Rightarrow> int option" where
  "js_minus a b = (case (a, b) of (Some x, Some y) \<Rightarrow> Some (x - y) | _ \<Rightarrow> None)"

section \<open>The remote store and services/cloudDrive.ts\<close>

text \<open>
  The \<^verbatim>\<open>data\<close> column of a backup row or a wallet data row is JSON typed
  \<^verbatim>\<open>any\<close>: each field of the snapshot may be missing or null (\<open>None\<close>).
\<close>

record AppData =
  rd_transactions :: "Transaction list option"
  rd_accounts :: "Account list option"
  rd_categories :: "Category list option"
  rd_settings :: "AppSettings option"
  rd_budget :: "number option"
  rd_categoryBudgets :: "CategoryBudget list option"

record BackupMetadata =
  md_source :: "string option"
  md_version :: "string option"
  md_timestamp :: "string option"
  md_items_count :: "nat option"

record BackupRow =
  br_data :: "AppData option"
  br_metadata :: "BackupMetadata option"
  br_updated_at :: "string option"

record WalletRow =
  wr_id :: string
  wr_name :: string
  wr_currency :: string
  wr_created_by :: string
  wr_created_at :: "string option"

record MemberRow =
  mr_wallet_id :: string
  mr_user_id :: string
  mr_role :: Role

record WalletDataRow =
  wd_data :: "AppData option"
  wd_updated_by :: string
  wd_updated_at :: string

text \<open>A request the client sends to the row store; the log of them is what a mock would count.\<close>

datatype request =
    Upsert_backups string
  | Select_backups string
  | Insert_wallets string
  | Insert_wallet_members string string
  | Delete_wallets string
  | Delete_wallet_members string
  | Delete_wallet_data string
  | Select_wallet_members string
  | Select_wallets "string list"
  | Select_wallet_data string

text \<open>
  The tables the source names: \<^verbatim>\<open>backups\<close> (one row per user, upsert on
  \<^verbatim>\<open>user_id\<close>), \<^verbatim>\<open>wallets\<close>, \<^verbatim>\<open>wallet_members\<close>, \<^verbatim>\<open>wallet_data\<close> (one row per
  wallet), and the log of the requests sent.
\<close>

record cloud =
  backups :: "string \<Rightarrow> BackupRow option"
  wallets_table :: "WalletRow list"
  wallet_members :: "MemberRow list"
  wallet_data :: "string \<Rightarrow> WalletDataRow option"
  requests :: "request list"

record PostgrestError =
  err_code :: string
  err_message :: string

text \<open>
  How the store answers one request is the environment's choice, an argument of the
  function that sends it: the request is served (and the table changes as asked), or it
  is refused with an error object (the table is as before), or the client call throws.
\<close>

datatype reply = Served | Refused PostgrestError | Threw string

text \<open>
  The answer to the backup upsert, which races a 30 s timer: the row is written and its
  \<^verbatim>\<open>updated_at\<close> column comes back (\<open>None\<close> when the answer carries none), or the
  request is refused, or throws, or the timer wins (the flag says whether the server wrote
  the row all the same).
\<close>

datatype upsert_reply =
    Echoed "string option"
  | Rejected PostgrestError
  | Crashed string
  | TimedOut bool

datatype failure =
    DeviceOffline
  | DataSizeExceeds nat
  | ProcessFailed string
  | BackupFailed string
  | Offline
  | InfiniteRecursion
  | WalletInsertFailed string
  | AssignOwnerFailed string
  | DeleteWalletFailed string
  | Thrown string
  | TypeError string

text \<open>
  The failures are the source's \<^verbatim>\<open>throw new Error(...)\<close>:
  \<open>DeviceOffline\<close> "Device is offline.";
  \<open>DataSizeExceeds n\<close> "Data size (..MB) exceeds max limit of 6MB." for \<open>n\<close> bytes;
  \<open>ProcessFailed m\<close> the message of what \<^verbatim>\<open>JSON.stringify\<close> threw;
  \<open>BackupFailed m\<close> the message of the refused, crashed or timed-out upsert;
  \<open>Offline\<close> "Offline";
  \<open>InfiniteRecursion\<close> "Database Error: Infinite Recursion. ...";
  \<open>WalletInsertFailed m\<close> the wallet insert's message;
  \<open>AssignOwnerFailed m\<close> "Failed to assign owner: " and the message;
  \<open>DeleteWalletFailed m\<close> "Failed to delete wallet: " and the message;
  \<open>Thrown m\<close> an exception of a client call that nothing catches;
  \<open>TypeError m\<close> a property read on undefined.
\<close>

definition BACKUP_TIMEOUT_MS :: nat where
  "BACKUP_TIMEOUT_MS = 30000"

definition MAX_PAYLOAD_SIZE_BYTES :: nat where
  "MAX_PAYLOAD_SIZE_BYTES = 6 * 1024 * 1024"

definition sent :: "request \<Rightarrow> cloud \<Rightarrow> cloud" where
  "sent r c = c\<lparr>requests := requests c @ [r]\<rparr>"

record BackupResult =
  res_timestamp :: string
  res_skipped :: bool

text \<open>
  \<^verbatim>\<open>cloudDrive.backupUserData(userId, appData)\<close>. \<open>onLine\<close> is
  \<^verbatim>\<open>navigator.onLine\<close>, \<open>clientTime\<close> is \<^verbatim>\<open>new Date().toISOString()\<close>, and
  \<open>serialized\<close> is what \<^verbatim>\<open>JSON.stringify(appData)\<close> gives: \<open>Inl m\<close> when it throws
  with message \<open>m\<close>, \<open>Inr n\<close> when the text takes \<open>n\<close> bytes
  (\<^verbatim>\<open>new Blob([payloadStr]).size\<close>).
\<close>

definition backup_metadata :: "string \<Rightarrow> AppData \<Rightarrow> BackupMetadata" where
  "backup_metadata clientTime appData =
     \<lparr>md_source = Some ''smart-budget-tracker'',
      md_version = Some ''1.0'',
      md_timestamp = Some clientTime,
      md_items_count = Some (case rd_transactions appData of None \<Rightarrow> 0 | Some ts \<Rightarrow> length ts)\<rparr>"

definition upsert_backup :: "string \<Rightarrow> AppData \<Rightarrow> BackupMetadata \<Rightarrow> string option \<Rightarrow> cloud \<Rightarrow> cloud" where
  "upsert_backup userId appData metadata updated_at c =
     c\<lparr>backups := (backups c)(userId \<mapsto>
        \<lparr>br_data = Some appData, br_metadata = Some metadata, br_updated_at = updated_at\<rparr>)\<rparr>"

definition cloudDrive_backupUserData ::
  "bool \<Rightarrow> string \<Rightarrow> string + nat \<Rightarrow> upsert_reply \<Rightarrow> string \<Rightarrow> AppData \<Rightarrow> cloud
     \<Rightarrow> (failure + BackupResult) \<times> cloud" where
  "cloudDrive_backupUserData onLine clientTime serialized answer userId appData c =
     (if \<not> onLine then (Inl DeviceOffline, c)
      else case serialized of
        Inl m \<Rightarrow> (Inl (ProcessFailed (or_default m ''Failed to process data for backup.'')), c)
      | Inr sizeBytes \<Rightarrow>
          if sizeBytes > MAX_PAYLOAD_SIZE_BYTES then (Inl (DataSizeExceeds sizeBytes), c)
          else
            let metadata = backup_metadata clientTime appData;
                c1 = sent (Upsert_backups userId) c
            in (case answer of
                 Echoed updated_at \<Rightarrow>
                   (Inr \<lparr>res_timestamp =
                           (if truthy_string updated_at then the updated_at else clientTime),
                         res_skipped = False\<rparr>,
                    upsert_backup userId appData metadata updated_at c1)
               | Rejected e \<Rightarrow> (Inl (BackupFailed (or_default (err_message e) ''Backup failed.'')), c1)
               | Crashed m \<Rightarrow> (Inl (BackupFailed (or_default m ''Backup failed.'')), c1)
               | TimedOut written \<Rightarrow>
                   (Inl (BackupFailed ''Backup request timed out (30s). Check your connection.''),
                    if written then upsert_backup userId appData metadata (Some clientTime) c1 else c1)))"

record Backup =
  b_data :: AppData
  b_metadata :: BackupMetadata

text \<open>
  \<^verbatim>\<open>cloudDrive.restoreBackup(userId)\<close>: null when offline, on an error, on an
  exception, and when there is no row or the row has no data; the metadata's timestamp
  is the row's \<^verbatim>\<open>updated_at\<close>.
\<close>

definition cloudDrive_restoreBackup :: "bool \<Rightarrow> reply \<Rightarrow> string \<Rightarrow> cloud \<Rightarrow> Backup option \<times> cloud" where
  "cloudDrive_restoreBackup onLine answer userId c =
     (if \<not> onLine then (None, c)
      else
        let c1 = sent (Select_backups userId) c
        in (case answer of
             Refused e \<Rightarrow> (None, c1)
           | Threw m \<Rightarrow> (None, c1)
           | Served \<Rightarrow>
               (case backups c userId of
                  None \<Rightarrow> (None, c1)
                | Some row \<Rightarrow>
                    (case br_data row of
                       None \<Rightarrow> (None, c1)
                     | Some d \<Rightarrow>
                         (Some \<lparr>b_data = d,
                                b_metadata =
                                  (case br_metadata row of
                                     None \<Rightarrow> \<lparr>md_source = None, md_version = None,
                                               md_timestamp = br_updated_at row, md_items_count = None\<rparr>
                                   | Some m \<Rightarrow> m\<lparr>md_timestamp := br_updated_at row\<rparr>)\<rparr>,
                          c1)))))"

text \<open>
  \<^verbatim>\<open>cloudDrive.createWallet(userId, name, currency)\<close>: insert the wallet row, then the
  owner's membership row; when the second insert is refused, send a delete for the wallet
  row (its answer is not read) and throw. \<open>newId\<close> and \<open>createdAt\<close> are the columns
  the server fills in for the inserted row.
\<close>

definition wallet_insert_failure :: "PostgrestError \<Rightarrow> failure" where
  "wallet_insert_failure e =
     (if sublist ''recursion'' (err_message e) \<or> err_code e = ''42P17'' then InfiniteRecursion
      else WalletInsertFailed (err_message e))"

definition member_insert_failure :: "PostgrestError \<Rightarrow> failure" where
  "member_insert_failure e =
     (if sublist ''recursion'' (err_message e) \<or> err_code e = ''42P17'' then InfiniteRecursion
      else AssignOwnerFailed (err_message e))"

definition delete_wallet_row :: "string \<Rightarrow> cloud \<Rightarrow> cloud" where
  "delete_wallet_row walletId c =
     c\<lparr>wallets_table := filter (\<lambda>r. wr_id r \<noteq> walletId) (wallets_table c)\<rparr>"

definition cloudDrive_createWallet ::
  "bool \<Rightarrow> reply \<Rightarrow> string \<Rightarrow> string option \<Rightarrow> reply \<Rightarrow> reply \<Rightarrow> string \<Rightarrow> string \<Rightarrow> string \<Rightarrow> cloud
     \<Rightarrow> (failure + Wallet) \<times> cloud" where
  "cloudDrive_createWallet onLine a1 newId createdAt a2 a3 userId name currencyCode c =
     (if \<not> onLine then (Inl Offline, c)
      else
        let c1 = sent (Insert_wallets name) c
        in (case a1 of
             Refused walletError \<Rightarrow> (Inl (wallet_insert_failure walletError), c1)
           | Threw m \<Rightarrow> (Inl (Thrown m), c1)
           | Served \<Rightarrow>
               let walletData = \<lparr>wr_id = newId, wr_name = name, wr_currency = currencyCode,
                                  wr_created_by = userId, wr_created_at = createdAt\<rparr>;
                   c2 = sent (Insert_wallet_members newId userId)
                          (c1\<lparr>wallets_table := wallets_table c1 @ [walletData]\<rparr>)
               in (case a2 of
                    Threw m \<Rightarrow> (Inl (Thrown m), c2)
                  | Refused memberError \<Rightarrow>
                      let c3 = sent (Delete_wallets newId) c2
                      in (case a3 of
                            Threw m \<Rightarrow> (Inl (Thrown m), c3)
                          | Refused e \<Rightarrow> (Inl (member_insert_failure memberError), c3)
                          | Served \<Rightarrow> (Inl (member_insert_failure memberError), delete_wallet_row newId c3))
                  | Served \<Rightarrow>
                      (Inr \<lparr>w_id = newId, w_name = name, w_currency = currencyCode, w_role = Owner,
                            w_created_at = createdAt, w_is_shared = True\<rparr>,
                       c2\<lparr>wallet_members := wallet_members c2 @
                            [\<lparr>mr_wallet_id = newId, mr_user_id = userId, mr_role = Owner\<rparr>]\<rparr>))))"

text \<open>
  \<^verbatim>\<open>cloudDrive.getMyWallets(userId)\<close>. \<^verbatim>\<open>new Map(entries)\<close> keeps the last entry
  of a key, hence the reversed list under \<open>map_of\<close>.
\<close>

definition cloudDrive_getMyWallets :: "bool \<Rightarrow> reply \<Rightarrow> reply \<Rightarrow> string \<Rightarrow> cloud \<Rightarrow> (failure + Wallet list) \<times> cloud" where
  "cloudDrive_getMyWallets onLine a1 a2 userId c =
     (if \<not> onLine then (Inr [], c)
      else
        let c1 = sent (Select_wallet_members userId) c
        in (case a1 of
             Threw m \<Rightarrow> (Inl (Thrown m), c1)
           | Refused memError \<Rightarrow> (Inr [], c1)
           | Served \<Rightarrow>
               let members = filter (\<lambda>m. mr_user_id m = userId) (wallet_members c)
               in if members = [] then (Inr [], c1)
                  else
                    let walletIds = map mr_wallet_id members;
                        roleMap = map_of (rev (map (\<lambda>m. (mr_wallet_id m, mr_role m)) members));
                        c2 = sent (Select_wallets walletIds) c1
                    in (case a2 of
                         Threw m \<Rightarrow> (Inl (Thrown m), c2)
                       | Refused wError \<Rightarrow> (Inr [], c2)
                       | Served \<Rightarrow>
                           (Inr (map (\<lambda>r. \<lparr>w_id = wr_id r, w_name = wr_name r, w_currency = wr_currency r,
                                            w_role = (case roleMap (wr_id r) of None \<Rightarrow> Viewer | Some x \<Rightarrow> x),
                                            w_created_at = wr_created_at r, w_is_shared = True\<rparr>)
                                   (filter (\<lambda>r. wr_id r \<in> set walletIds) (wallets_table c))),
                            c2))))"

text \<open>\<^verbatim>\<open>cloudDrive.getWalletData(walletId)\<close>: \<^verbatim>\<open>data?.data || null\<close>.\<close>

definition cloudDrive_getWalletData :: "bool \<Rightarrow> reply \<Rightarrow> string \<Rightarrow> cloud \<Rightarrow> (failure + AppData option) \<times> cloud" where
  "cloudDrive_getWalletData onLine answer walletId c =
     (if \<not> onLine then (Inr None, c)
      else
        let c1 = sent (Select_wallet_data walletId) c
        in (case answer of
             Threw m \<Rightarrow> (Inl (Thrown m), c1)
           | Refused e \<Rightarrow> (Inr None, c1)
           | Served \<Rightarrow>
               (Inr (case wallet_data c walletId of None \<Rightarrow> None | Some row \<Rightarrow> wd_data row), c1)))"

text \<open>
  \<^verbatim>\<open>cloudDrive.deleteWallet(walletId)\<close>: members, then data, then the wallet row. The
  answers of the first two deletes are not read; only an exception stops the cascade.
\<close>

definition cloudDrive_deleteWallet :: "bool \<Rightarrow> reply \<Rightarrow> reply \<Rightarrow> reply \<Rightarrow> string \<Rightarrow> cloud \<Rightarrow> (failure + unit) \<times> cloud" where
  "cloudDrive_deleteWallet onLine a1 a2 a3 walletId c =
     (if \<not> onLine then (Inl Offline, c)
      else
        let c1 = sent (Delete_wallet_members walletId) c
        in (case a1 of
             Threw m \<Rightarrow> (Inl (DeleteWalletFailed m), c1)
           | _ \<Rightarrow>
               let c1' = (if a1 = Served
                          then c1\<lparr>wallet_members := filter (\<lambda>m. mr_wallet_id m \<noteq> walletId) (wallet_members c1)\<rparr>
                          else c1);
                   c2 = sent (Delete_wallet_data walletId) c1'
               in (case a2 of
                    Threw m \<Rightarrow> (Inl (DeleteWalletFailed m), c2)
                  | _ \<Rightarrow>
                      let c2' = (if a2 = Served then c2\<lparr>wallet_data := (wallet_data c2)(walletId := None)\<rparr> else c2);
                          c3 = sent (Delete_wallets walletId) c2'
                      in (case a3 of
                           Threw m \<Rightarrow> (Inl (DeleteWalletFailed m), c3)
                         | Refused e \<Rightarrow> (Inl (DeleteWalletFailed (err_message e)), c3)
                         | Served \<Rightarrow> (Inr (), delete_wallet_row walletId c3)))))"

section \<open>The local persistent store (services/storage.ts)\<close>

text \<open>
  \<^verbatim>\<open>localStorage\<close> under the keys of \<^verbatim>\<open>STORAGE_KEYS\<close> (the constants module is not
  part of the sources, so the keys are the fields of a record). A key is absent (\<open>None\<close>)
  or holds the JSON text of a value; the model keeps the value, taking
  \<^verbatim>\<open>JSON.parse(JSON.stringify(v))\<close> to give \<open>v\<close> back. \<^verbatim>\<open>storage.set\<close> removes the
  key when the value is null or undefined, so a nullable value (\<^verbatim>\<open>lastSync\<close>,
  \<^verbatim>\<open>activeWalletId\<close>) is the key's content as it is, and reading it with the fallback
  null is reading the field.
\<close>

record Storage =
  ls_TRANSACTIONS :: "Transaction list option"
  ls_ACCOUNTS :: "Account list option"
  ls_CATEGORIES :: "Category list option"
  ls_SETTINGS :: "AppSettings option"
  ls_BUDGET :: "number option"
  ls_CATEGORY_BUDGETS :: "CategoryBudget list option"
  ls_WALLETS_LIST :: "Wallet list option"
  ls_LAST_SYNC :: "string option"
  ls_ACTIVE_WALLET_ID :: "string option"
  ls_UNSYNCED_CHANGES :: "bool option"
  ls_CUSTOM_TRANSLATIONS :: "(string \<times> (string \<times> string) list) list option"

definition storage_get :: "'a option \<Rightarrow> 'a \<Rightarrow> 'a" where
  "storage_get item fallback = (case item of None \<Rightarrow> fallback | Some v \<Rightarrow> v)"

definition localStorage_clear :: Storage where
  "localStorage_clear =
     \<lparr>ls_TRANSACTIONS = None, ls_ACCOUNTS = None, ls_CATEGORIES = None, ls_SETTINGS = None,
      ls_BUDGET = None, ls_CATEGORY_BUDGETS = None, ls_WALLETS_LIST = None, ls_LAST_SYNC = None,
      ls_ACTIVE_WALLET_ID = None, ls_UNSYNCED_CHANGES = None, ls_CUSTOM_TRANSLATIONS = None\<rparr>"

text \<open>The constants module is not part of the sources: its values are a parameter.\<close>

record constants =
  INITIAL_ACCOUNTS :: "Account list"
  INITIAL_CATEGORIES :: "Category list"
  DEFAULT_SETTINGS :: AppSettings
  TRANSLATIONS_initial :: "(string \<times> (string \<times> string) list) list"

section \<open>The application state (AppProvider)\<close>

text \<open>
  The provider is the module \<^verbatim>\<open>context/AppContext\<close>, the third module of
  \<^verbatim>\<open>src/pages/Settings.tsx\<close> (from line 1790). The record holds the values of its
  \<^verbatim>\<open>useState\<close> hooks.
\<close>

record ProviderState =
  transactions :: "Transaction list"
  accounts :: "Account list"
  categories :: "Category list"
  settings :: AppSettings
  budget :: number
  categoryBudgets :: "CategoryBudget list"
  wallets :: "Wallet list"
  syncState :: SyncState
  notification :: "Notification option"
  isActionSheetOpen :: bool
  aiInsight :: "string option"
  isAIAnalysing :: bool
  isDirty :: bool
  availableLanguageCodes :: "string list"

text \<open>
  What a call of the provider reads and writes: its React state, \<^verbatim>\<open>localStorage\<close>,
  the module-level \<^verbatim>\<open>TRANSLATIONS\<close> object (keys in insertion order), the remote
  store and \<^verbatim>\<open>navigator.onLine\<close>. A call runs to its end before the next one starts.
  A callback made by \<^verbatim>\<open>useCallback\<close> reads the values of the render that created it;
  it is taken to be called through its latest version, so that what it reads is the
  current state, except \<^verbatim>\<open>restoreBackup\<close>, which takes the state it has captured as
  an argument (two calls in a row may go through one and the same callback).
\<close>

record world =
  app :: ProviderState
  localStorage :: Storage
  TRANSLATIONS :: "(string \<times> (string \<times> string) list) list"
  remote :: cloud
  navigator_onLine :: bool

definition setTransactions :: "Transaction list \<Rightarrow> world \<Rightarrow> world" where
  "setTransactions v w = w\<lparr>app := (app w)\<lparr>transactions := v\<rparr>\<rparr>"

definition setAccounts :: "Account list \<Rightarrow> world \<Rightarrow> world" where
  "setAccounts v w = w\<lparr>app := (app w)\<lparr>accounts := v\<rparr>\<rparr>"

definition setCategories :: "Category list \<Rightarrow> world \<Rightarrow> world" where
  "setCategories v w = w\<lparr>app := (app w)\<lparr>categories := v\<rparr>\<rparr>"

definition setSettings :: "AppSettings \<Rightarrow> world \<Rightarrow> world" where
  "setSettings v w = w\<lparr>app := (app w)\<lparr>settings := v\<rparr>\<rparr>"

definition setBudgetState :: "number \<Rightarrow> world \<Rightarrow> world" where
  "setBudgetState v w = w\<lparr>app := (app w)\<lparr>budget := v\<rparr>\<rparr>"

definition setCategoryBudgets :: "CategoryBudget list \<Rightarrow> world \<Rightarrow> world" where
  "setCategoryBudgets v w = w\<lparr>app := (app w)\<lparr>categoryBudgets := v\<rparr>\<rparr>"

definition setWallets :: "Wallet list \<Rightarrow> world \<Rightarrow> world" where
  "setWallets v w = w\<lparr>app := (app w)\<lparr>wallets := v\<rparr>\<rparr>"

definition setSyncState :: "(SyncState \<Rightarrow> SyncState) \<Rightarrow> world \<Rightarrow> world" where
  "setSyncState f w = w\<lparr>app := (app w)\<lparr>syncState := f (syncState (app w))\<rparr>\<rparr>"

definition setNotification :: "Notification option \<Rightarrow> world \<Rightarrow> world" where
  "setNotification v w = w\<lparr>app := (app w)\<lparr>notification := v\<rparr>\<rparr>"

definition setIsActionSheetOpen :: "bool \<Rightarrow> world \<Rightarrow> world" where
  "setIsActionSheetOpen v w = w\<lparr>app := (app w)\<lparr>isActionSheetOpen := v\<rparr>\<rparr>"

definition setAiInsight :: "string option \<Rightarrow> world \<Rightarrow> world" where
  "setAiInsight v w = w\<lparr>app := (app w)\<lparr>aiInsight := v\<rparr>\<rparr>"

definition setIsAIAnalysing :: "bool \<Rightarrow> world \<Rightarrow> world" where
  "setIsAIAnalysing v w = w\<lparr>app := (app w)\<lparr>isAIAnalysing := v\<rparr>\<rparr>"

definition setIsDirty :: "bool \<Rightarrow> world \<Rightarrow> world" where
  "setIsDirty v w = w\<lparr>app := (app w)\<lparr>isDirty := v\<rparr>\<rparr>"

definition setAvailableLanguageCodes :: "string list \<Rightarrow> world \<Rightarrow> world" where
  "setAvailableLanguageCodes v w = w\<lparr>app := (app w)\<lparr>availableLanguageCodes := v\<rparr>\<rparr>"

definition setRemote :: "cloud \<Rightarrow> world \<Rightarrow> world" where
  "setRemote c w = w\<lparr>remote := c\<rparr>"

subsection \<open>Decimal text of a number (template strings)\<close>

fun digits :: "nat \<Rightarrow> string" where
  "digits n = (if n < 10 then [''0123456789'' ! n] else digits (n div 10) @ [''0123456789'' ! (n mod 10)])"

definition string_of_int :: "int \<Rightarrow> string" where
  "string_of_int i = (if i < 0 then CHR ''-'' # digits (nat (- i)) else digits (nat i))"

subsection \<open>Local mutations\<close>

definition markAsDirty :: "world \<Rightarrow> world" where
  "markAsDirty w =
     (let w1 = setIsDirty True w;
          w2 = setSyncState (\<lambda>prev. prev\<lparr>unsyncedChanges := True\<rparr>) w1
      in w2\<lparr>localStorage := (localStorage w2)\<lparr>ls_UNSYNCED_CHANGES := Some True\<rparr>\<rparr>)"

definition showNotification :: "int \<Rightarrow> string \<Rightarrow> NotificationType \<Rightarrow> world \<Rightarrow> world" where
  "showNotification now message kind w =
     setNotification (Some \<lparr>n_id = now, n_message = message, n_type = kind\<rparr>) w"

text \<open>The timer of \<^verbatim>\<open>showNotification\<close>, 3 s later.\<close>

definition notificationTimeout :: "world \<Rightarrow> world" where
  "notificationTimeout w = setNotification None w"

text \<open>\<open>newId\<close> is \<^verbatim>\<open>crypto.randomUUID()\<close>; the \<open>tx_id\<close> of \<open>tData\<close> is not read.\<close>

definition addTransaction :: "Transaction \<Rightarrow> string \<Rightarrow> world \<Rightarrow> world" where
  "addTransaction tData newId w =
     (let newTx = tData\<lparr>tx_id := newId, tx_isPendingSync := Some True\<rparr>
      in markAsDirty (setTransactions (newTx # transactions (app w)) w))"

definition updateTransaction :: "Transaction \<Rightarrow> world \<Rightarrow> world" where
  "updateTransaction d w =
     markAsDirty (setTransactions
       (map (\<lambda>t. if tx_id t = tx_id d then d\<lparr>tx_isPendingSync := Some True\<rparr> else t)
          (transactions (app w))) w)"

definition deleteTransaction :: "string \<Rightarrow> world \<Rightarrow> bool \<times> world" where
  "deleteTransaction i w =
     (let newTxs = filter (\<lambda>t. tx_id t \<noteq> i) (transactions (app w))
      in (True, markAsDirty (setTransactions newTxs w)))"

definition importTransactions :: "int \<Rightarrow> Transaction list \<Rightarrow> world \<Rightarrow> world" where
  "importTransactions now txs w =
     showNotification now (digits (length txs) @ '' transactions imported!'') Success
       (markAsDirty (setTransactions (transactions (app w) @ txs) w))"

text \<open>\<open>now\<close> is \<^verbatim>\<open>Date.now()\<close>; the \<open>acc_id\<close> of \<open>a\<close> is not read.\<close>

definition addAccount :: "Account \<Rightarrow> int \<Rightarrow> world \<Rightarrow> world" where
  "addAccount a now w =
     markAsDirty (setAccounts (accounts (app w) @ [a\<lparr>acc_id := ''acc_'' @ string_of_int now\<rparr>]) w)"

definition updateAccountName :: "string \<Rightarrow> string \<Rightarrow> world \<Rightarrow> world" where
  "updateAccountName i newName w =
     markAsDirty (setAccounts
       (map (\<lambda>a. if acc_id a = i then a\<lparr>acc_name := newName\<rparr> else a) (accounts (app w))) w)"

definition deleteAccount :: "string \<Rightarrow> world \<Rightarrow> world" where
  "deleteAccount i w =
     markAsDirty (setAccounts (filter (\<lambda>a. acc_id a \<noteq> i) (accounts (app w))) w)"

definition addCategory :: "Category \<Rightarrow> int \<Rightarrow> world \<Rightarrow> world" where
  "addCategory c now w =
     markAsDirty (setCategories (categories (app w) @ [c\<lparr>cat_id := ''cat_'' @ string_of_int now\<rparr>]) w)"

definition updateCategory :: "Category \<Rightarrow> world \<Rightarrow> world" where
  "updateCategory c w =
     markAsDirty (setCategories
       (map (\<lambda>cat. if cat_id cat = cat_id c then c else cat) (categories (app w))) w)"

definition uncategorize :: "string \<Rightarrow> Transaction \<Rightarrow> Transaction" where
  "uncategorize i t =
     (if tx_categoryId t = Some i
      then t\<lparr>tx_categoryId := None, tx_subCategory := None,
              tx_note := (if tx_note t \<noteq> [] then tx_note t @ '' (Uncategorized)'' else ''(Uncategorized)'')\<rparr>
      else t)"

definition deleteCategory :: "string \<Rightarrow> world \<Rightarrow> world" where
  "deleteCategory i w =
     (let w1 = setCategories (filter (\<lambda>c. cat_id c \<noteq> i) (categories (app w))) w;
          w2 = setTransactions (map (uncategorize i) (transactions (app w1))) w1
      in markAsDirty w2)"

definition updateBudget :: "number \<Rightarrow> world \<Rightarrow> world" where
  "updateBudget amount w = markAsDirty (setBudgetState amount w)"

definition updateCategoryBudget :: "string \<Rightarrow> number \<Rightarrow> world \<Rightarrow> world" where
  "updateCategoryBudget catId amount w =
     (let prev = categoryBudgets (app w)
      in markAsDirty (setCategoryBudgets
           (case find (\<lambda>b. cb_categoryId b = catId) prev of
              Some existing \<Rightarrow> map (\<lambda>b. if cb_categoryId b = catId then b\<lparr>cb_amount := amount\<rparr> else b) prev
            | None \<Rightarrow> prev @ [\<lparr>cb_categoryId = catId, cb_amount = amount\<rparr>]) w))"

text \<open>
  \<^verbatim>\<open>updateSettings(s: Partial<AppSettings>)\<close> sets \<^verbatim>\<open>{...prev, ...s}\<close>: the partial
  object is the function \<open>s\<close> that overwrites its fields in \<open>prev\<close>.
\<close>

definition updateSettings :: "(AppSettings \<Rightarrow> AppSettings) \<Rightarrow> world \<Rightarrow> world" where
  "updateSettings s w = markAsDirty (setSettings (s (settings (app w))) w)"

definition resetPreferences :: "world \<Rightarrow> world" where
  "resetPreferences w = w\<lparr>localStorage := localStorage_clear\<rparr>"

text \<open>
  \<^verbatim>\<open>resetPreferences\<close> then signs out and reloads the page: the sign-out arrives as
  \<open>onAuthStateChange\<close> below, and the reload ends this provider; the next one starts
  from \<open>mount\<close>.
\<close>

definition installLanguage :: "string \<Rightarrow> (string \<times> string) list \<Rightarrow> world \<Rightarrow> world" where
  "installLanguage code dict w =
     (let w1 = w\<lparr>TRANSLATIONS := AList.update code dict (TRANSLATIONS w)\<rparr>;
          w2 = setAvailableLanguageCodes (map fst (TRANSLATIONS w1)) w1;
          stored = storage_get (ls_CUSTOM_TRANSLATIONS (localStorage w2)) [];
          w3 = w2\<lparr>localStorage := (localStorage w2)\<lparr>ls_CUSTOM_TRANSLATIONS := Some (AList.update code dict stored)\<rparr>\<rparr>
      in updateSettings (\<lambda>prev. prev\<lparr>language := code\<rparr>) w3)"

definition uninstallLanguage :: "string \<Rightarrow> world \<Rightarrow> world" where
  "uninstallLanguage code w =
     (if code = ''en'' then w
      else
        let w1 = w\<lparr>TRANSLATIONS := AList.delete code (TRANSLATIONS w)\<rparr>;
            w2 = setAvailableLanguageCodes (map fst (TRANSLATIONS w1)) w1;
            stored = storage_get (ls_CUSTOM_TRANSLATIONS (localStorage w2)) [];
            w3 = w2\<lparr>localStorage := (localStorage w2)\<lparr>ls_CUSTOM_TRANSLATIONS := Some (AList.delete code stored)\<rparr>\<rparr>
        in if language (settings (app w)) = code
           then updateSettings (\<lambda>prev. prev\<lparr>language := ''en''\<rparr>) w3
           else w3)"

definition installCurrency :: "string \<Rightarrow> world \<Rightarrow> world" where
  "installCurrency code w =
     (let cs = currencies (settings (app w))
      in if code \<notin> set cs then updateSettings (\<lambda>prev. prev\<lparr>currencies := cs @ [code]\<rparr>) w else w)"

definition uninstallCurrency :: "string \<Rightarrow> world \<Rightarrow> world" where
  "uninstallCurrency code w =
     (if code = ''USD'' then w
      else
        let cs = currencies (settings (app w));
            cur = currency (settings (app w))
        in updateSettings
             (\<lambda>prev. prev\<lparr>currencies := filter (\<lambda>c. c \<noteq> code) cs,
                           currency := (if cur = code then ''USD'' else cur)\<rparr>) w)"

subsection \<open>Session and connectivity\<close>

definition logout :: "world \<Rightarrow> world" where
  "logout w = setSyncState (\<lambda>prev. prev\<lparr>isLoggedIn := False, user := None\<rparr>) w"

definition updateUserProfilePhoto :: "string \<Rightarrow> world \<Rightarrow> world" where
  "updateUserProfilePhoto url w =
     setSyncState (\<lambda>prev. case user prev of
                             Some u \<Rightarrow> prev\<lparr>user := Some (u\<lparr>up_photoURL := Some url\<rparr>)\<rparr>
                           | None \<Rightarrow> prev) w"

text \<open>The browser's \<^verbatim>\<open>online\<close> and \<^verbatim>\<open>offline\<close> events, with \<^verbatim>\<open>navigator.onLine\<close>.\<close>

definition handleOnline :: "world \<Rightarrow> world" where
  "handleOnline w = setSyncState (\<lambda>prev. prev\<lparr>isOnline := True\<rparr>) (w\<lparr>navigator_onLine := True\<rparr>)"

definition handleOffline :: "world \<Rightarrow> world" where
  "handleOffline w = setSyncState (\<lambda>prev. prev\<lparr>isOnline := False\<rparr>) (w\<lparr>navigator_onLine := False\<rparr>)"

subsection \<open>The login-time check for a newer backup\<close>

text \<open>
  \<^verbatim>\<open>checkCloudBackup(userId)\<close>. The local time is read from the stored
  \<^verbatim>\<open>LAST_SYNC\<close> key, and is 0 when the key is absent or empty.
\<close>

definition checkCloudBackup :: "date_parser \<Rightarrow> reply \<Rightarrow> string \<Rightarrow> world \<Rightarrow> world" where
  "checkCloudBackup getTime answer userId w =
     (case cloudDrive_restoreBackup (navigator_onLine w) answer userId (remote w) of
        (None, c) \<Rightarrow> setRemote c w
      | (Some backup, c) \<Rightarrow>
          let w1 = setRemote c w
          in if truthy_string (md_timestamp (b_metadata backup))
             then
               let localLastSync = ls_LAST_SYNC (localStorage w1);
                   cloudTime = getTime (the (md_timestamp (b_metadata backup)));
                   localTime = (if truthy_string localLastSync then getTime (the localLastSync) else Some 0)
               in if js_gt cloudTime localTime
                  then setSyncState (\<lambda>prev. prev\<lparr>pendingRestoreAvailable := True\<rparr>) w1
                  else w1
             else w1)"

datatype AuthEvent =
  INITIAL_SESSION | SIGNED_IN | SIGNED_OUT | PASSWORD_RECOVERY | TOKEN_REFRESHED | USER_UPDATED

text \<open>
  The two auth callbacks of the provider. \<open>profile\<close> is the profile that
  \<^verbatim>\<open>cloudDrive.ensureUserProfile(session.user)\<close> builds (its id is the user's id), or
  \<open>None\<close> when there is no session.
\<close>

definition sessionRestored :: "date_parser \<Rightarrow> UserProfile option \<Rightarrow> reply \<Rightarrow> world \<Rightarrow> world" where
  "sessionRestored getTime profile answer w =
     (case profile of
        None \<Rightarrow> w
      | Some p \<Rightarrow>
          checkCloudBackup getTime answer (up_id p)
            (setSyncState (\<lambda>prev. prev\<lparr>isLoggedIn := True, user := Some p\<rparr>) w))"

definition onAuthStateChange :: "date_parser \<Rightarrow> AuthEvent \<Rightarrow> UserProfile option \<Rightarrow> reply \<Rightarrow> world \<Rightarrow> world" where
  "onAuthStateChange getTime event profile answer w =
     (case profile of
        Some p \<Rightarrow>
          let w1 = setSyncState (\<lambda>prev. prev\<lparr>isLoggedIn := True, user := Some p\<rparr>) w;
              w2 = (if event = SIGNED_IN then checkCloudBackup getTime answer (up_id p) w1 else w1)
          in if event = PASSWORD_RECOVERY
             then setSyncState (\<lambda>prev. prev\<lparr>isPasswordRecovery := Some True\<rparr>) w2
             else w2
      | None \<Rightarrow> setSyncState (\<lambda>prev. prev\<lparr>isLoggedIn := False, user := None\<rparr>) w)"

subsection \<open>Backup and restore\<close>

definition snapshot :: "ProviderState \<Rightarrow> AppData" where
  "snapshot a =
     \<lparr>rd_transactions = Some (transactions a), rd_accounts = Some (accounts a),
      rd_categories = Some (categories a), rd_settings = Some (settings a),
      rd_budget = Some (budget a), rd_categoryBudgets = Some (categoryBudgets a)\<rparr>"

definition backupUserData :: "string \<Rightarrow> string + nat \<Rightarrow> upsert_reply \<Rightarrow> world \<Rightarrow> (failure + unit) \<times> world" where
  "backupUserData clientTime serialized answer w =
     (case user (syncState (app w)) of
        None \<Rightarrow> (Inr (), w)
      | Some u \<Rightarrow>
          (case cloudDrive_backupUserData (navigator_onLine w) clientTime serialized answer
                  (up_id u) (snapshot (app w)) (remote w) of
             (Inl e, c) \<Rightarrow> (Inl e, setRemote c w)
           | (Inr result, c) \<Rightarrow>
               (Inr (),
                setIsDirty False
                  (setSyncState (\<lambda>prev. prev\<lparr>lastSync := Some (res_timestamp result),
                                              unsyncedChanges := False\<rparr>)
                     (setRemote c w)))))"

datatype Strategy = Merge | Replace | Skip

definition replace_fields :: "AppData \<Rightarrow> world \<Rightarrow> world" where
  "replace_fields remoteData w =
     (let w1 = (case rd_transactions remoteData of Some v \<Rightarrow> setTransactions v w | None \<Rightarrow> w);
          w2 = (case rd_accounts remoteData of Some v \<Rightarrow> setAccounts v w1 | None \<Rightarrow> w1);
          w3 = (case rd_categories remoteData of Some v \<Rightarrow> setCategories v w2 | None \<Rightarrow> w2);
          w4 = (case rd_settings remoteData of Some v \<Rightarrow> setSettings v w3 | None \<Rightarrow> w3);
          w5 = (if truthy_number (rd_budget remoteData) then setBudgetState (the (rd_budget remoteData)) w4 else w4)
      in (case rd_categoryBudgets remoteData of Some v \<Rightarrow> setCategoryBudgets v w5 | None \<Rightarrow> w5))"

definition merge_new :: "Transaction list \<Rightarrow> Transaction list \<Rightarrow> Transaction list" where
  "merge_new localTxs remoteTxs =
     (let localIds = set (map tx_id localTxs)
      in filter (\<lambda>t. tx_id t \<notin> localIds) remoteTxs)"

text \<open>
  \<^verbatim>\<open>restoreBackup(strategy)\<close> is made by \<^verbatim>\<open>useCallback\<close> with the dependencies
  \<^verbatim>\<open>[syncState.user, transactions]\<close>: \<open>captured\<close> is the provider state of the render
  that created the callback. The callback reads \<^verbatim>\<open>syncState.user\<close> and, for the ids
  that a merge takes as present locally, \<^verbatim>\<open>transactions\<close> from it; what it writes goes
  through the setters, and \<^verbatim>\<open>setTransactions(prev => [...prev, ...newTxs])\<close> appends
  to the current list. Called through the callback of the latest render, \<open>captured\<close>
  is the current state \<open>app w\<close>.
\<close>

definition restoreBackup :: "Strategy \<Rightarrow> reply \<Rightarrow> ProviderState \<Rightarrow> world \<Rightarrow> (failure + bool) \<times> world" where
  "restoreBackup strategy answer captured w =
     (if strategy = Skip
      then (Inr True, setSyncState (\<lambda>prev. prev\<lparr>pendingRestoreAvailable := False\<rparr>) w)
      else case user (syncState captured) of
        None \<Rightarrow> (Inr False, w)
      | Some u \<Rightarrow>
          (case cloudDrive_restoreBackup (navigator_onLine w) answer (up_id u) (remote w) of
             (None, c) \<Rightarrow> (Inr False, setRemote c w)
           | (Some backup, c) \<Rightarrow>
               let w1 = setRemote c w;
                   remoteData = b_data backup;
                   done = setSyncState (\<lambda>prev. prev\<lparr>lastSync := md_timestamp (b_metadata backup),
                                                     pendingRestoreAvailable := False,
                                                     unsyncedChanges := False\<rparr>)
               in (case strategy of
                     Replace \<Rightarrow> (Inr True, done (replace_fields remoteData w1))
                   | Merge \<Rightarrow>
                       (case rd_transactions remoteData of
                          None \<Rightarrow> (Inl (TypeError ''remoteData.transactions is undefined''), w1)
                        | Some remoteTxs \<Rightarrow>
                            let newTxs = merge_new (transactions captured) remoteTxs
                            in (Inr True, done (setTransactions (transactions (app w1) @ newTxs) w1)))
                   | Skip \<Rightarrow> (Inr True, done w1))))"

text \<open>
  The last branch of the inner case is not reached (\<open>Skip\<close> has returned above); it
  is what the source's \<^verbatim>\<open>if ... else if ...\<close> does for a strategy that is neither.
\<close>

text \<open>
  The auto-backup effect. Its guard returns early unless the user is logged in, the
  state says online, auto-backup is not off and \<^verbatim>\<open>lastSync\<close> is set; then
  \<^verbatim>\<open>checkBackup()\<close>, called at once and every 60 s, backs up when more than the
  interval has passed since \<^verbatim>\<open>lastSync\<close>. \<open>now\<close> is \<^verbatim>\<open>Date.now()\<close>. A failed
  backup is logged and nothing else.
\<close>

definition intervalMs :: "AutoBackup \<Rightarrow> int" where
  "intervalMs mode = (if mode = Daily then 24 else 168) * 60 * 60 * 1000"

definition autoBackup_due :: "date_parser \<Rightarrow> int \<Rightarrow> world \<Rightarrow> bool" where
  "autoBackup_due getTime now w =
     (let st = syncState (app w);
          mode = autoBackup (settings (app w))
      in if \<not> isLoggedIn st \<or> \<not> isOnline st \<or> mode = Off \<or> \<not> truthy_string (lastSync st) then False
         else
           let last = getTime (the (lastSync st))
           in js_gt (js_minus (Some now) last) (Some (intervalMs mode)))"

definition autoBackup_tick :: "date_parser \<Rightarrow> int \<Rightarrow> string \<Rightarrow> string + nat \<Rightarrow> upsert_reply \<Rightarrow> world \<Rightarrow> world" where
  "autoBackup_tick getTime now clientTime serialized answer w =
     (if autoBackup_due getTime now w
      then snd (backupUserData clientTime serialized answer w)
      else w)"

subsection \<open>Shared wallets\<close>

definition createWallet ::
  "reply \<Rightarrow> string \<Rightarrow> string option \<Rightarrow> reply \<Rightarrow> reply \<Rightarrow> string \<Rightarrow> string \<Rightarrow> world \<Rightarrow> (failure + unit) \<times> world" where
  "createWallet a1 newId createdAt a2 a3 walletName currencyCode w =
     (case user (syncState (app w)) of
        None \<Rightarrow> (Inr (), w)
      | Some u \<Rightarrow>
          (case cloudDrive_createWallet (navigator_onLine w) a1 newId createdAt a2 a3
                  (up_id u) walletName currencyCode (remote w) of
             (Inl e, c) \<Rightarrow> (Inl e, setRemote c w)
           | (Inr x, c) \<Rightarrow> (Inr (), setWallets (wallets (app w) @ [x]) (setRemote c w))))"

definition refreshWallets :: "reply \<Rightarrow> reply \<Rightarrow> world \<Rightarrow> (failure + unit) \<times> world" where
  "refreshWallets a1 a2 w =
     (case user (syncState (app w)) of
        None \<Rightarrow> (Inr (), w)
      | Some u \<Rightarrow>
          (case cloudDrive_getMyWallets (navigator_onLine w) a1 a2 (up_id u) (remote w) of
             (Inl e, c) \<Rightarrow> (Inl e, setRemote c w)
           | (Inr xs, c) \<Rightarrow> (Inr (), setWallets xs (setRemote c w))))"

definition switchWallet :: "constants \<Rightarrow> string option \<Rightarrow> reply \<Rightarrow> world \<Rightarrow> (failure + unit) \<times> world" where
  "switchWallet K i answer w =
     (let w1 = setSyncState (\<lambda>prev. prev\<lparr>activeWalletId := i\<rparr>) w
      in if truthy_string i
         then
           (case cloudDrive_getWalletData (navigator_onLine w1) answer (the i) (remote w1) of
              (Inl e, c) \<Rightarrow> (Inl e, setRemote c w1)
            | (Inr None, c) \<Rightarrow> (Inr (), setRemote c w1)
            | (Inr (Some wData), c) \<Rightarrow>
                let w2 = setTransactions (case rd_transactions wData of Some v \<Rightarrow> v | None \<Rightarrow> []) (setRemote c w1);
                    w3 = setAccounts (case rd_accounts wData of Some v \<Rightarrow> v | None \<Rightarrow> []) w2;
                    w4 = setCategories (case rd_categories wData of Some v \<Rightarrow> v | None \<Rightarrow> []) w3
                in (Inr (), setBudgetState (case rd_budget wData of Some v \<Rightarrow> v | None \<Rightarrow> 0) w4))
         else
           let ls = localStorage w1;
               w2 = setTransactions (storage_get (ls_TRANSACTIONS ls) []) w1;
               w3 = setAccounts (storage_get (ls_ACCOUNTS ls) (INITIAL_ACCOUNTS K)) w2
           in (Inr (), setCategories (storage_get (ls_CATEGORIES ls) (INITIAL_CATEGORIES K)) w3))"

definition deleteWallet :: "constants \<Rightarrow> string \<Rightarrow> reply \<Rightarrow> reply \<Rightarrow> reply \<Rightarrow> world \<Rightarrow> (failure + unit) \<times> world" where
  "deleteWallet K i a1 a2 a3 w =
     (case cloudDrive_deleteWallet (navigator_onLine w) a1 a2 a3 i (remote w) of
        (Inl e, c) \<Rightarrow> (Inl e, setRemote c w)
      | (Inr u, c) \<Rightarrow>
          let w1 = setWallets (filter (\<lambda>x. w_id x \<noteq> i) (wallets (app w))) (setRemote c w)
          in if activeWalletId (syncState (app w)) = Some i
             then (Inr (), snd (switchWallet K None Served w1))
             else (Inr (), w1))"

subsection \<open>AI insights\<close>

text \<open>
  What the generative-text endpoint answers: a text (possibly none), or an error with
  its status and message. The prompt is built from the thirty latest transactions; the
  state only depends on whether there is any.
\<close>

datatype ai_reply = AiText "string option" | AiError "int option" "string option"

definition is_quota_error :: "int option \<Rightarrow> string option \<Rightarrow> bool" where
  "is_quota_error status message =
     (status = Some 429 \<or> (case message of None \<Rightarrow> False | Some m \<Rightarrow> sublist ''429'' m \<or> sublist ''quota'' m))"

definition refreshAIInsights :: "bool \<Rightarrow> Transaction list option \<Rightarrow> ai_reply \<Rightarrow> world \<Rightarrow> world" where
  "refreshAIInsights force txsOverride answer w =
     (let a = app w
      in if \<not> showAIInsightsOnDashboard (settings a) then w
         else if \<not> force \<and> truthy_string (aiInsight a) then w
         else
           let txsToAnalyze = (case txsOverride of Some v \<Rightarrow> v | None \<Rightarrow> transactions a);
               w1 = (if txsToAnalyze = []
                     then setAiInsight (Some ''Start adding transactions to get AI insights.'') w
                     else (case answer of
                             AiText t \<Rightarrow>
                               setAiInsight (Some (if truthy_string t then the t else ''No insights available.'')) w
                           | AiError status message \<Rightarrow>
                               if is_quota_error status message \<and> (force \<or> \<not> truthy_string (aiInsight a))
                               then setAiInsight (Some ''Daily AI limit reached. Try again later.'') w
                               else w))
           in setIsAIAnalysing False w1)"

subsection \<open>Persistence effects, first render, and one step of the provider\<close>

text \<open>
  Each \<^verbatim>\<open>useEffect(() => storage.set(KEY, value), [value])\<close> runs after a render in
  which its value has changed, and after the first render. \<open>old\<close> is the state before
  the call.
\<close>

definition persist_effects :: "ProviderState \<Rightarrow> world \<Rightarrow> world" where
  "persist_effects old w =
     (let a = app w;
          l0 = localStorage w;
          l1 = (if transactions a \<noteq> transactions old then l0\<lparr>ls_TRANSACTIONS := Some (transactions a)\<rparr> else l0);
          l2 = (if accounts a \<noteq> accounts old then l1\<lparr>ls_ACCOUNTS := Some (accounts a)\<rparr> else l1);
          l3 = (if categories a \<noteq> categories old then l2\<lparr>ls_CATEGORIES := Some (categories a)\<rparr> else l2);
          l4 = (if settings a \<noteq> settings old then l3\<lparr>ls_SETTINGS := Some (settings a)\<rparr> else l3);
          l5 = (if budget a \<noteq> budget old then l4\<lparr>ls_BUDGET := Some (budget a)\<rparr> else l4);
          l6 = (if categoryBudgets a \<noteq> categoryBudgets old
                then l5\<lparr>ls_CATEGORY_BUDGETS := Some (categoryBudgets a)\<rparr> else l5);
          l7 = (if wallets a \<noteq> wallets old then l6\<lparr>ls_WALLETS_LIST := Some (wallets a)\<rparr> else l6);
          l8 = (if activeWalletId (syncState a) \<noteq> activeWalletId (syncState old)
                then l7\<lparr>ls_ACTIVE_WALLET_ID := activeWalletId (syncState a)\<rparr> else l7);
          l9 = (if lastSync (syncState a) \<noteq> lastSync (syncState old)
                then l8\<lparr>ls_LAST_SYNC := lastSync (syncState a)\<rparr> else l8)
      in w\<lparr>localStorage := l9\<rparr>)"

text \<open>
  The first render of a page load: the \<^verbatim>\<open>useState\<close> initialisers read the store, the
  stored custom translations are added to \<^verbatim>\<open>TRANSLATIONS\<close>, and every persistence
  effect runs once.
\<close>

definition add_custom_translations ::
  "(string \<times> (string \<times> string) list) list \<Rightarrow> (string \<times> (string \<times> string) list) list
     \<Rightarrow> (string \<times> (string \<times> string) list) list" where
  "add_custom_translations stored T =
     foldl (\<lambda>acc (code, dict). if map_of acc code = None then AList.update code dict acc else acc) T stored"

definition mount :: "constants \<Rightarrow> Storage \<Rightarrow> cloud \<Rightarrow> bool \<Rightarrow> world" where
  "mount K ls c onLine =
     (let T = add_custom_translations (storage_get (ls_CUSTOM_TRANSLATIONS ls) []) (TRANSLATIONS_initial K);
          a = \<lparr>transactions = storage_get (ls_TRANSACTIONS ls) [],
               accounts = storage_get (ls_ACCOUNTS ls) (INITIAL_ACCOUNTS K),
               categories = storage_get (ls_CATEGORIES ls) (INITIAL_CATEGORIES K),
               settings = storage_get (ls_SETTINGS ls) (DEFAULT_SETTINGS K),
               budget = storage_get (ls_BUDGET ls) 0,
               categoryBudgets = storage_get (ls_CATEGORY_BUDGETS ls) [],
               wallets = storage_get (ls_WALLETS_LIST ls) [],
               syncState =
                 \<lparr>isLoggedIn = False, user = None, lastSync = ls_LAST_SYNC ls, backupSize = None,
                  pendingRestoreAvailable = False, isOnline = onLine, pendingActionsCount = 0,
                  isSyncing = None, syncStatusMessage = None, isRealtimeConnected = False,
                  unsyncedChanges = False, activeWalletId = ls_ACTIVE_WALLET_ID ls,
                  isPasswordRecovery = None\<rparr>,
               notification = None, isActionSheetOpen = False, aiInsight = None,
               isAIAnalysing = False, isDirty = False,
               availableLanguageCodes = map fst T\<rparr>
      in \<lparr>app = a,
          localStorage =
            ls\<lparr>ls_TRANSACTIONS := Some (transactions a), ls_ACCOUNTS := Some (accounts a),
                ls_CATEGORIES := Some (categories a), ls_SETTINGS := Some (settings a),
                ls_BUDGET := Some (budget a), ls_CATEGORY_BUDGETS := Some (categoryBudgets a),
                ls_WALLETS_LIST := Some (wallets a)\<rparr>,
          TRANSLATIONS = T, remote = c, navigator_onLine = onLine\<rparr>)"

text \<open>
  The calls the provider offers and the events it listens to, each with what the
  environment contributes to it (clock, identifiers, answers of the remote store).
  \<^verbatim>\<open>login\<close>, \<^verbatim>\<open>signup\<close>, \<^verbatim>\<open>resetPassword\<close> and \<^verbatim>\<open>updatePassword\<close> only call the
  auth provider: what they change arrives as \<open>OnAuthStateChange\<close>. \<open>RestoreBackup\<close>
  names the state captured by the callback through which the call is made.
\<close>

datatype action =
    AddTransaction Transaction string
  | UpdateTransaction Transaction
  | DeleteTransaction string
  | ImportTransactions int "Transaction list"
  | AddAccount Account int
  | UpdateAccountName string string
  | DeleteAccount string
  | AddCategory Category int
  | UpdateCategory Category
  | DeleteCategory string
  | UpdateBudget number
  | UpdateCategoryBudget string number
  | UpdateSettings "AppSettings \<Rightarrow> AppSettings"
  | ResetPreferences
  | InstallLanguage string "(string \<times> string) list"
  | UninstallLanguage string
  | InstallCurrency string
  | UninstallCurrency string
  | Logout
  | UpdateUserProfilePhoto string
  | HandleOnline
  | HandleOffline
  | SessionRestored "UserProfile option" reply
  | OnAuthStateChange AuthEvent "UserProfile option" reply
  | BackupUserData string "string + nat" upsert_reply
  | RestoreBackup ProviderState Strategy reply
  | AutoBackupTick int string "string + nat" upsert_reply
  | CreateWallet reply string "string option" reply reply string string
  | RefreshWallets reply reply
  | SwitchWallet "string option" reply
  | DeleteWallet string reply reply reply
  | RefreshAIInsights bool "Transaction list option" ai_reply
  | ShowNotification int string NotificationType
  | NotificationTimeout
  | SetIsActionSheetOpen bool

primrec perform :: "constants \<Rightarrow> date_parser \<Rightarrow> action \<Rightarrow> world \<Rightarrow> world" where
  "perform K getTime (AddTransaction tData newId) w = addTransaction tData newId w"
| "perform K getTime (UpdateTransaction d) w = updateTransaction d w"
| "perform K getTime (DeleteTransaction i) w = snd (deleteTransaction i w)"
| "perform K getTime (ImportTransactions now txs) w = importTransactions now txs w"
| "perform K getTime (AddAccount a now) w = addAccount a now w"
| "perform K getTime (UpdateAccountName i n) w = updateAccountName i n w"
| "perform K getTime (DeleteAccount i) w = deleteAccount i w"
| "perform K getTime (AddCategory c now) w = addCategory c now w"
| "perform K getTime (UpdateCategory c) w = updateCategory c w"
| "perform K getTime (DeleteCategory i) w = deleteCategory i w"
| "perform K getTime (UpdateBudget amount) w = updateBudget amount w"
| "perform K getTime (UpdateCategoryBudget catId amount) w = updateCategoryBudget catId amount w"
| "perform K getTime (UpdateSettings s) w = updateSettings s w"
| "perform K getTime ResetPreferences w = resetPreferences w"
| "perform K getTime (InstallLanguage code dict) w = installLanguage code dict w"
| "perform K getTime (UninstallLanguage code) w = uninstallLanguage code w"
| "perform K getTime (InstallCurrency code) w = installCurrency code w"
| "perform K getTime (UninstallCurrency code) w = uninstallCurrency code w"
| "perform K getTime Logout w = logout w"
| "perform K getTime (UpdateUserProfilePhoto url) w = updateUserProfilePhoto url w"
| "perform K getTime HandleOnline w = handleOnline w"
| "perform K getTime HandleOffline w = handleOffline w"
| "perform K getTime (SessionRestored profile answer) w = sessionRestored getTime profile answer w"
| "perform K getTime (OnAuthStateChange event profile answer) w = onAuthStateChange getTime event profile answer w"
| "perform K getTime (BackupUserData clientTime serialized answer) w = snd (backupUserData clientTime serialized answer w)"
| "perform K getTime (RestoreBackup captured strategy answer) w = snd (restoreBackup strategy answer captured w)"
| "perform K getTime (AutoBackupTick now clientTime serialized answer) w = autoBackup_tick getTime now clientTime serialized answer w"
| "perform K getTime (CreateWallet a1 newId createdAt a2 a3 walletName currencyCode) w =
     snd (createWallet a1 newId createdAt a2 a3 walletName currencyCode w)"
| "perform K getTime (RefreshWallets a1 a2) w = snd (refreshWallets a1 a2 w)"
| "perform K getTime (SwitchWallet i answer) w = snd (switchWallet K i answer w)"
| "perform K getTime (DeleteWallet i a1 a2 a3) w = snd (deleteWallet K i a1 a2 a3 w)"
| "perform K getTime (RefreshAIInsights force txsOverride answer) w = refreshAIInsights force txsOverride answer w"
| "perform K getTime (ShowNotification now message kind) w = showNotification now message kind w"
| "perform K getTime NotificationTimeout w = notificationTimeout w"
| "perform K getTime (SetIsActionSheetOpen v) w = setIsActionSheetOpen v w"

text \<open>One step: the call, then the render's persistence effects.\<close>

definition step :: "constants \<Rightarrow> date_parser \<Rightarrow> action \<Rightarrow> world \<Rightarrow> world" where
  "step K getTime act w = persist_effects (app w) (perform K getTime act w)"

section \<open>What the properties speak of\<close>

text \<open>The local mutations: the calls that edit the snapshot.\<close>

definition local_mutation :: "action \<Rightarrow> bool" where
  "local_mutation act =
     (case act of
        AddTransaction tData newId \<Rightarrow> True
      | UpdateTransaction d \<Rightarrow> True
      | DeleteTransaction i \<Rightarrow> True
      | ImportTransactions now txs \<Rightarrow> True
      | AddAccount a now \<Rightarrow> True
      | UpdateAccountName i n \<Rightarrow> True
      | DeleteAccount i \<Rightarrow> True
      | AddCategory c now \<Rightarrow> True
      | UpdateCategory c \<Rightarrow> True
      | DeleteCategory i \<Rightarrow> True
      | UpdateBudget amount \<Rightarrow> True
      | UpdateCategoryBudget catId amount \<Rightarrow> True
      | UpdateSettings s \<Rightarrow> True
      | _ \<Rightarrow> False)"

text \<open>
  A backup succeeds when a user is logged in and \<^verbatim>\<open>cloudDrive.backupUserData\<close>
  returns; a restore succeeds when \<^verbatim>\<open>restoreBackup\<close> returns true.
\<close>

definition backup_succeeds :: "string \<Rightarrow> string + nat \<Rightarrow> upsert_reply \<Rightarrow> world \<Rightarrow> bool" where
  "backup_succeeds clientTime serialized answer w =
     (case user (syncState (app w)) of
        None \<Rightarrow> False
      | Some u \<Rightarrow>
          \<not> isl (fst (cloudDrive_backupUserData (navigator_onLine w) clientTime serialized answer
                        (up_id u) (snapshot (app w)) (remote w))))"

definition manual_backup_succeeds :: "action \<Rightarrow> world \<Rightarrow> bool" where
  "manual_backup_succeeds act w =
     (case act of
        BackupUserData clientTime serialized answer \<Rightarrow> backup_succeeds clientTime serialized answer w
      | _ \<Rightarrow> False)"

definition auto_backup_succeeds :: "date_parser \<Rightarrow> action \<Rightarrow> world \<Rightarrow> bool" where
  "auto_backup_succeeds getTime act w =
     (case act of
        AutoBackupTick now clientTime serialized answer \<Rightarrow>
          autoBackup_due getTime now w \<and> backup_succeeds clientTime serialized answer w
      | _ \<Rightarrow> False)"

definition restore_succeeds :: "action \<Rightarrow> world \<Rightarrow> bool" where
  "restore_succeeds act w =
     (case act of
        RestoreBackup captured strategy answer \<Rightarrow>
          strategy \<noteq> Skip \<and> fst (restoreBackup strategy answer captured w) = Inr True
      | _ \<Rightarrow> False)"

text \<open>
  A call keeps the synchronisation marks when \<^verbatim>\<open>lastSync\<close> is as before and
  \<^verbatim>\<open>unsyncedChanges\<close>, if it was set, is still set.
\<close>

definition sync_marks_kept :: "world \<Rightarrow> world \<Rightarrow> bool" where
  "sync_marks_kept w w' =
     (lastSync (syncState (app w')) = lastSync (syncState (app w)) \<and>
      (unsyncedChanges (syncState (app w)) \<longrightarrow> unsyncedChanges (syncState (app w'))))"

section \<open>Concrete inputs\<close>

definition example_settings :: AppSettings where
  "example_settings =
     \<lparr>currency = ''USD'', currencies = [''USD'', ''EUR''], deletedCurrencies = [],
      theme = ''light'', fontSize = ''medium'', language = ''en'', deletedLanguages = [],
      archivedCustomLanguages = [], defaultDashboardView = ''month'',
      defaultReportView = ''monthly'', defaultExportView = ''monthly'',
      showBudgetOnDashboard = True, showCategoryBudgetsOnDashboard = True,
      hiddenCategoryBudgets = [], showFinancialOverviewChart = True,
      showAccountsOnDashboard = True, showQuickActionsOnDashboard = True,
      showAIInsightsOnDashboard = False, showFinancialHealthScore = True,
      reportChartType = ''bar'', automationThreshold = 1000, autoBackup = Daily,
      enableRealtime = False\<rparr>"

definition example_tx :: "string \<Rightarrow> number \<Rightarrow> Transaction" where
  "example_tx i amount =
     \<lparr>tx_id = i, tx_type = Expense, tx_amount = amount, tx_date = ''2024-05-01T09:00:00.000Z'',
      tx_note = ''lunch'', tx_accountId = Some ''acc_cash'', tx_categoryId = Some ''cat_food'',
      tx_subCategory = None, tx_fromAccountId = None, tx_toAccountId = None,
      tx_receiptUrl = None, tx_merchantName = None, tx_isFlagged = None, tx_user_id = None,
      tx_isPendingSync = Some True\<rparr>"

definition example_account :: Account where
  "example_account = \<lparr>acc_id = ''acc_cash'', acc_key = Cash, acc_name = ''Cash''\<rparr>"

definition example_category :: Category where
  "example_category =
     \<lparr>cat_id = ''cat_food'', cat_name = ''Food'', cat_type = CatExpense, cat_subCategories = []\<rparr>"

definition example_constants :: constants where
  "example_constants =
     \<lparr>INITIAL_ACCOUNTS = [example_account], INITIAL_CATEGORIES = [example_category],
      DEFAULT_SETTINGS = example_settings, TRANSLATIONS_initial = [(''en'', [])]\<rparr>"

definition example_profile :: UserProfile where
  "example_profile =
     \<lparr>up_id = ''u1'', up_email = Some ''ann@example.com'', up_name = ''Ann'', up_address = None,
      up_photoURL = None, up_createdAt = ''2024-01-01T00:00:00.000Z'', up_lastSignIn = None,
      up_emailVerified = True\<rparr>"

definition empty_cloud :: cloud where
  "empty_cloud =
     \<lparr>backups = (\<lambda>u. None), wallets_table = [], wallet_members = [],
      wallet_data = (\<lambda>i. None), requests = []\<rparr>"

text \<open>
  A signed-in, online provider on a device whose store holds one personal transaction and
  a budget of 100; nothing has been synchronised yet.
\<close>

definition example_storage :: Storage where
  "example_storage =
     localStorage_clear\<lparr>ls_TRANSACTIONS := Some [example_tx ''t1'' 12], ls_BUDGET := Some 100\<rparr>"

definition example_world :: world where
  "example_world =
     setSyncState (\<lambda>prev. prev\<lparr>isLoggedIn := True, user := Some example_profile\<rparr>)
       (mount example_constants example_storage empty_cloud True)"

text \<open>
  The provider after one backup, and a second device of the same user, with an empty
  local store, facing the remote store as that backup left it.
\<close>

definition backed_up_world :: world where
  "backed_up_world =
     snd (backupUserData ''2024-05-02T08:00:00.000Z'' (Inr 2048)
            (Echoed (Some ''2024-05-02T08:00:01.000Z'')) example_world)"

definition second_device_world :: world where
  "second_device_world =
     setSyncState (\<lambda>prev. prev\<lparr>isLoggedIn := True, user := Some example_profile\<rparr>)
       (mount example_constants localStorage_clear (remote backed_up_world) True)"

text \<open>The same provider facing a store that holds a backup without accounts and a zero budget.\<close>

definition partial_backup :: BackupRow where
  "partial_backup =
     \<lparr>br_data = Some \<lparr>rd_transactions = Some [example_tx ''t1'' 12, example_tx ''t2'' 30],
                      rd_accounts = None, rd_categories = None, rd_settings = None,
                      rd_budget = Some 0, rd_categoryBudgets = None\<rparr>,
      br_metadata = None,
      br_updated_at = Some ''2024-05-03T00:00:00.000Z''\<rparr>"

definition partial_world :: world where
  "partial_world =
     example_world\<lparr>remote := empty_cloud\<lparr>backups := (\<lambda>u. if u = ''u1'' then Some partial_backup else None)\<rparr>\<rparr>"

text \<open>A store whose backup row was written with the clock at the Unix epoch.\<close>

definition epoch_world :: world where
  "epoch_world =
     example_world\<lparr>remote := empty_cloud\<lparr>backups :=
        (\<lambda>u. if u = ''u1''
             then Some (partial_backup\<lparr>br_updated_at := Some ''1970-01-01T00:00:00.000Z''\<rparr>)
             else None)\<rparr>\<rparr>"

text \<open>\<^verbatim>\<open>new Date(s).getTime()\<close> on the two timestamps used here.\<close>

definition example_getTime :: date_parser where
  "example_getTime s =
     (if s = ''1970-01-01T00:00:00.000Z'' then Some 0
      else if s = ''2024-05-03T00:00:00.000Z'' then Some 1714694400000
      else None)"

text \<open>A store with the data of a shared wallet: one transaction and a budget of 500.\<close>

definition wallet_world :: world where
  "wallet_world =
     example_world\<lparr>remote := empty_cloud\<lparr>wallet_data :=
        (\<lambda>i. if i = ''w1''
             then Some \<lparr>wd_data = Some \<lparr>rd_transactions = Some [example_tx ''t7'' 70],
                                        rd_accounts = Some [], rd_categories = Some [],
                                        rd_settings = None, rd_budget = Some 500,
                                        rd_categoryBudgets = None\<rparr>,
                        wd_updated_by = ''u2'', wd_updated_at = ''2024-05-04T00:00:00.000Z''\<rparr>
             else None)\<rparr>\<rparr>"

definition rls_error :: PostgrestError where
  "rls_error = \<lparr>err_code = ''42501'', err_message = ''new row violates row-level security policy''\<rparr>"

section \<open>Auxiliary facts\<close>


lemmas setters =
  setTransactions_def setAccounts_def setCategories_def setSettings_def setBudgetState_def
  setCategoryBudgets_def setWallets_def setSyncState_def setNotification_def
  setIsActionSheetOpen_def setAiInsight_def setIsAIAnalysing_def setIsDirty_def
  setAvailableLanguageCodes_def setRemote_def

lemma merge_new_again: "merge_new (xs @ merge_new xs ys) ys = []"
  by (auto simp: merge_new_def filter_empty_conv)

lemma backup_success_cases:
  assumes "cloudDrive_backupUserData onLine clientTime serialized answer userId appData c = (Inr res, c')"
  shows "onLine \<and> (\<exists>n e. serialized = Inr n \<and> n \<le> MAX_PAYLOAD_SIZE_BYTES \<and> answer = Echoed e
           \<and> res = \<lparr>res_timestamp = (if truthy_string e then the e else clientTime), res_skipped = False\<rparr>
           \<and> c' = upsert_backup userId appData (backup_metadata clientTime appData) e (sent (Upsert_backups userId) c))"
  using assms
  by (auto simp: cloudDrive_backupUserData_def Let_def split: if_splits sum.splits upsert_reply.splits)

lemma restore_after_upsert:
  "cloudDrive_restoreBackup True Served userId (upsert_backup userId appData md e c)
     = (Some \<lparr>b_data = appData, b_metadata = md\<lparr>md_timestamp := e\<rparr>\<rparr>,
        sent (Select_backups userId) (upsert_backup userId appData md e c))"
  by (simp add: cloudDrive_restoreBackup_def upsert_backup_def sent_def Let_def)


lemma fetch_row:
  assumes "backups c userId = Some \<lparr>br_data = Some d, br_metadata = Some md, br_updated_at = e\<rparr>"
  shows "cloudDrive_restoreBackup True Served userId c
     = (Some \<lparr>b_data = d, b_metadata = md\<lparr>md_timestamp := e\<rparr>\<rparr>, sent (Select_backups userId) c)"
  using assms by (simp add: cloudDrive_restoreBackup_def Let_def)

lemma opt_setTransactions:
  "(case x of Some v \<Rightarrow> setTransactions v w | None \<Rightarrow> w)
     = w\<lparr>app := (app w)\<lparr>transactions := (case x of Some v \<Rightarrow> v | None \<Rightarrow> transactions (app w))\<rparr>\<rparr>"
  by (cases x) (simp_all add: setTransactions_def)

lemma opt_setAccounts:
  "(case x of Some v \<Rightarrow> setAccounts v w | None \<Rightarrow> w)
     = w\<lparr>app := (app w)\<lparr>accounts := (case x of Some v \<Rightarrow> v | None \<Rightarrow> accounts (app w))\<rparr>\<rparr>"
  by (cases x) (simp_all add: setAccounts_def)

lemma opt_setCategories:
  "(case x of Some v \<Rightarrow> setCategories v w | None \<Rightarrow> w)
     = w\<lparr>app := (app w)\<lparr>categories := (case x of Some v \<Rightarrow> v | None \<Rightarrow> categories (app w))\<rparr>\<rparr>"
  by (cases x) (simp_all add: setCategories_def)

lemma opt_setSettings:
  "(case x of Some v \<Rightarrow> setSettings v w | None \<Rightarrow> w)
     = w\<lparr>app := (app w)\<lparr>settings := (case x of Some v \<Rightarrow> v | None \<Rightarrow> settings (app w))\<rparr>\<rparr>"
  by (cases x) (simp_all add: setSettings_def)

lemma opt_setBudgetState:
  "(if b then setBudgetState v w else w)
     = w\<lparr>app := (app w)\<lparr>budget := (if b then v else budget (app w))\<rparr>\<rparr>"
  by (simp add: setBudgetState_def)

lemma opt_setCategoryBudgets:
  "(case x of Some v \<Rightarrow> setCategoryBudgets v w | None \<Rightarrow> w)
     = w\<lparr>app := (app w)\<lparr>categoryBudgets := (case x of Some v \<Rightarrow> v | None \<Rightarrow> categoryBudgets (app w))\<rparr>\<rparr>"
  by (cases x) (simp_all add: setCategoryBudgets_def)

lemma replace_fields_eq:
  "replace_fields d w =
     w\<lparr>app := (app w)\<lparr>
        transactions := (case rd_transactions d of Some v \<Rightarrow> v | None \<Rightarrow> transactions (app w)),
        accounts := (case rd_accounts d of Some v \<Rightarrow> v | None \<Rightarrow> accounts (app w)),
        categories := (case rd_categories d of Some v \<Rightarrow> v | None \<Rightarrow> categories (app w)),
        settings := (case rd_settings d of Some v \<Rightarrow> v | None \<Rightarrow> settings (app w)),
        budget := (if truthy_number (rd_budget d) then the (rd_budget d) else budget (app w)),
        categoryBudgets := (case rd_categoryBudgets d of Some v \<Rightarrow> v | None \<Rightarrow> categoryBudgets (app w))\<rparr>\<rparr>"
  unfolding replace_fields_def Let_def
  by (simp only: opt_setTransactions opt_setAccounts opt_setCategories opt_setSettings
        opt_setBudgetState opt_setCategoryBudgets) (simp cong: option.case_cong if_cong)

lemma restoreBackup_Replace_eq:
  assumes "user (syncState captured) = Some u"
      and "cloudDrive_restoreBackup (navigator_onLine w) answer (up_id u) (remote w) = (Some backup, c)"
  shows "restoreBackup Replace answer captured w =
     (Inr True,
      setSyncState (\<lambda>prev. prev\<lparr>lastSync := md_timestamp (b_metadata backup),
                                  pendingRestoreAvailable := False, unsyncedChanges := False\<rparr>)
        (replace_fields (b_data backup) (setRemote c w)))"
  using assms by (simp add: restoreBackup_def Let_def)

subsection \<open>The concrete inputs, evaluated\<close>

lemma example_world_user: "user (syncState (app example_world)) = Some example_profile"
  by (simp add: example_world_def mount_def setSyncState_def Let_def)

lemma example_world_app:
  "transactions (app example_world) = [example_tx ''t1'' 12]"
  "accounts (app example_world) = [example_account]"
  "categories (app example_world) = [example_category]"
  "settings (app example_world) = example_settings"
  "budget (app example_world) = 100"
  "categoryBudgets (app example_world) = []"
  by (simp_all add: example_world_def mount_def setSyncState_def Let_def example_storage_def
        localStorage_clear_def storage_get_def example_constants_def)

lemma example_world_env:
  "navigator_onLine example_world" "remote example_world = empty_cloud"
  by (simp_all add: example_world_def mount_def setSyncState_def Let_def)

lemma partial_world_fetch:
  "cloudDrive_restoreBackup True Served ''u1'' (remote partial_world)
     = (Some \<lparr>b_data = the (br_data partial_backup),
              b_metadata = \<lparr>md_source = None, md_version = None,
                            md_timestamp = Some ''2024-05-03T00:00:00.000Z'', md_items_count = None\<rparr>\<rparr>,
        sent (Select_backups ''u1'') (remote partial_world))"
  by (simp add: partial_world_def cloudDrive_restoreBackup_def Let_def partial_backup_def empty_cloud_def sent_def)

lemma partial_world_app:
  "user (syncState (app partial_world)) = Some example_profile"
  "transactions (app partial_world) = [example_tx ''t1'' 12]"
  "accounts (app partial_world) = [example_account]"
  "budget (app partial_world) = 100"
  "navigator_onLine partial_world"
  using example_world_user example_world_app example_world_env
  by (simp_all add: partial_world_def)

lemma backed_up_world_ok:
  "fst (backupUserData ''2024-05-02T08:00:00.000Z'' (Inr 2048)
          (Echoed (Some ''2024-05-02T08:00:01.000Z'')) example_world) = Inr ()"
  by (simp add: backupUserData_def example_world_user example_world_env cloudDrive_backupUserData_def
        MAX_PAYLOAD_SIZE_BYTES_def Let_def)

lemma second_device_world_facts:
  "user (syncState (app second_device_world)) = Some example_profile"
  "navigator_onLine second_device_world"
  "remote second_device_world = remote backed_up_world"
  "transactions (app second_device_world) = []"
  "budget (app second_device_world) = 0"
  by (simp_all add: second_device_world_def mount_def setSyncState_def Let_def localStorage_clear_def
        storage_get_def)

subsection \<open>Which calls touch the synchronisation marks\<close>

lemma kept_refl: "sync_marks_kept w w"
  by (simp add: sync_marks_kept_def)

lemma kept_trans: "sync_marks_kept w w1 \<Longrightarrow> sync_marks_kept w1 w2 \<Longrightarrow> sync_marks_kept w w2"
  by (simp add: sync_marks_kept_def)

lemma kept_same_sync: "syncState (app w') = syncState (app w) \<Longrightarrow> sync_marks_kept w w'"
  by (simp add: sync_marks_kept_def)

lemma sync_markAsDirty: "syncState (app (markAsDirty w)) = (syncState (app w))\<lparr>unsyncedChanges := True\<rparr>"
  by (simp add: markAsDirty_def Let_def setters)

lemma kept_dirty: "syncState (app w') = syncState (app w) \<Longrightarrow> sync_marks_kept w (markAsDirty w')"
  by (simp add: sync_marks_kept_def sync_markAsDirty)

lemma kept_updateSettings: "sync_marks_kept w (updateSettings s w)"
  by (simp add: updateSettings_def kept_dirty setters)

lemma kept_resetPreferences: "sync_marks_kept w (resetPreferences w)"
  by (simp add: resetPreferences_def kept_same_sync)

lemma kept_installLanguage: "sync_marks_kept w (installLanguage code dict w)"
  by (simp add: installLanguage_def Let_def updateSettings_def kept_dirty setters)

lemma kept_uninstallLanguage: "sync_marks_kept w (uninstallLanguage code w)"
  by (simp add: uninstallLanguage_def Let_def updateSettings_def kept_dirty kept_refl kept_same_sync setters)

lemma kept_installCurrency: "sync_marks_kept w (installCurrency code w)"
  by (simp add: installCurrency_def Let_def kept_updateSettings kept_refl)

lemma kept_uninstallCurrency: "sync_marks_kept w (uninstallCurrency code w)"
  by (simp add: uninstallCurrency_def Let_def kept_updateSettings kept_refl)

lemma kept_logout: "sync_marks_kept w (logout w)"
  by (simp add: logout_def sync_marks_kept_def setters)

lemma kept_updateUserProfilePhoto: "sync_marks_kept w (updateUserProfilePhoto url w)"
  by (simp add: updateUserProfilePhoto_def sync_marks_kept_def setters split: option.splits)

lemma kept_handleOnline: "sync_marks_kept w (handleOnline w)"
  by (simp add: handleOnline_def sync_marks_kept_def setters)

lemma kept_handleOffline: "sync_marks_kept w (handleOffline w)"
  by (simp add: handleOffline_def sync_marks_kept_def setters)

lemma kept_checkCloudBackup: "sync_marks_kept w (checkCloudBackup getTime answer userId w)"
  by (cases "cloudDrive_restoreBackup (navigator_onLine w) answer userId (remote w)")
     (simp add: checkCloudBackup_def Let_def sync_marks_kept_def setters split: option.splits)

lemma kept_sessionRestored: "sync_marks_kept w (sessionRestored getTime profile answer w)"
proof (cases profile)
  case None
  then show ?thesis by (simp add: sessionRestored_def kept_refl)
next
  case (Some p)
  have "sync_marks_kept w (setSyncState (\<lambda>prev. prev\<lparr>isLoggedIn := True, user := Some p\<rparr>) w)"
    by (simp add: sync_marks_kept_def setters)
  then have "sync_marks_kept w (checkCloudBackup getTime answer (up_id p)
      (setSyncState (\<lambda>prev. prev\<lparr>isLoggedIn := True, user := Some p\<rparr>) w))"
    using kept_checkCloudBackup by (rule kept_trans)
  then show ?thesis
    using Some by (simp add: sessionRestored_def)
qed

lemma kept_onAuthStateChange: "sync_marks_kept w (onAuthStateChange getTime event profile answer w)"
proof (cases profile)
  case None
  then show ?thesis by (simp add: onAuthStateChange_def sync_marks_kept_def setters)
next
  case (Some p)
  let ?w1 = "setSyncState (\<lambda>prev. prev\<lparr>isLoggedIn := True, user := Some p\<rparr>) w"
  have A: "sync_marks_kept w ?w1"
    by (simp add: sync_marks_kept_def setters)
  have B: "sync_marks_kept w x \<Longrightarrow>
      sync_marks_kept w (setSyncState (\<lambda>prev. prev\<lparr>isPasswordRecovery := Some True\<rparr>) x)" for x
    by (simp add: sync_marks_kept_def setSyncState_def)
  have C: "sync_marks_kept w (checkCloudBackup getTime answer (up_id p) ?w1)"
    using A kept_checkCloudBackup by (rule kept_trans)
  show ?thesis
    using Some A B C by (simp add: onAuthStateChange_def Let_def)
qed

lemma kept_createWallet: "sync_marks_kept w (snd (createWallet a1 newId createdAt a2 a3 n cc w))"
  by (simp add: createWallet_def sync_marks_kept_def setters split: option.splits prod.splits sum.splits)

lemma kept_refreshWallets: "sync_marks_kept w (snd (refreshWallets a1 a2 w))"
  by (simp add: refreshWallets_def sync_marks_kept_def setters split: option.splits prod.splits sum.splits)

lemma kept_switchWallet: "sync_marks_kept w (snd (switchWallet K i answer w))"
  by (simp add: switchWallet_def Let_def sync_marks_kept_def setters split: option.splits prod.splits sum.splits)

lemma kept_deleteWallet: "sync_marks_kept w (snd (deleteWallet K i a1 a2 a3 w))"
proof (cases "cloudDrive_deleteWallet (navigator_onLine w) a1 a2 a3 i (remote w)")
  case (Pair r c)
  show ?thesis
  proof (cases r)
    case (Inl e)
    then show ?thesis using Pair by (simp add: deleteWallet_def sync_marks_kept_def setters)
  next
    case (Inr u)
    let ?w1 = "setWallets (filter (\<lambda>x. w_id x \<noteq> i) (wallets (app w))) (setRemote c w)"
    have 1: "sync_marks_kept w ?w1"
      by (simp add: sync_marks_kept_def setters)
    have 2: "sync_marks_kept ?w1 (snd (switchWallet K None Served ?w1))"
      by (rule kept_switchWallet)
    show ?thesis
      using Pair Inr 1 kept_trans[OF 1 2] by (simp add: deleteWallet_def Let_def)
  qed
qed

lemma kept_refreshAIInsights: "sync_marks_kept w (refreshAIInsights force txsOverride answer w)"
  by (simp add: refreshAIInsights_def Let_def sync_marks_kept_def setters split: ai_reply.splits)

lemma sync_mutations:
  "syncState (app (addTransaction tData newId w)) = (syncState (app w))\<lparr>unsyncedChanges := True\<rparr>"
  "syncState (app (updateTransaction d w)) = (syncState (app w))\<lparr>unsyncedChanges := True\<rparr>"
  "syncState (app (snd (deleteTransaction i w))) = (syncState (app w))\<lparr>unsyncedChanges := True\<rparr>"
  "syncState (app (importTransactions now txs w)) = (syncState (app w))\<lparr>unsyncedChanges := True\<rparr>"
  "syncState (app (addAccount a now w)) = (syncState (app w))\<lparr>unsyncedChanges := True\<rparr>"
  "syncState (app (updateAccountName i n w)) = (syncState (app w))\<lparr>unsyncedChanges := True\<rparr>"
  "syncState (app (deleteAccount i w)) = (syncState (app w))\<lparr>unsyncedChanges := True\<rparr>"
  "syncState (app (addCategory c now w)) = (syncState (app w))\<lparr>unsyncedChanges := True\<rparr>"
  "syncState (app (updateCategory c w)) = (syncState (app w))\<lparr>unsyncedChanges := True\<rparr>"
  "syncState (app (deleteCategory i w)) = (syncState (app w))\<lparr>unsyncedChanges := True\<rparr>"
  "syncState (app (updateBudget amount w)) = (syncState (app w))\<lparr>unsyncedChanges := True\<rparr>"
  "syncState (app (updateCategoryBudget catId amount w)) = (syncState (app w))\<lparr>unsyncedChanges := True\<rparr>"
  "syncState (app (updateSettings s w)) = (syncState (app w))\<lparr>unsyncedChanges := True\<rparr>"
  by (simp_all add: addTransaction_def updateTransaction_def deleteTransaction_def importTransactions_def
        addAccount_def updateAccountName_def deleteAccount_def addCategory_def updateCategory_def
        deleteCategory_def updateBudget_def updateCategoryBudget_def updateSettings_def
        showNotification_def sync_markAsDirty Let_def setters)

lemma kept_mutation: "syncState (app w') = (syncState (app w))\<lparr>unsyncedChanges := True\<rparr> \<Longrightarrow> sync_marks_kept w w'"
  by (simp add: sync_marks_kept_def)

lemma app_persist_effects: "app (persist_effects old w) = app w"
  by (simp add: persist_effects_def Let_def)

lemma remote_persist_effects: "remote (persist_effects old w) = remote w"
  by (simp add: persist_effects_def Let_def)

lemma persist_effects_same: "persist_effects (app w) w = w"
  by (simp add: persist_effects_def Let_def)

text \<open>Every call but a backup, an auto-backup evaluation and a restore keeps the marks.\<close>

lemma perform_keeps_marks:
  assumes "case act of
             BackupUserData clientTime serialized answer \<Rightarrow> False
           | RestoreBackup captured strategy answer \<Rightarrow> False
           | AutoBackupTick now clientTime serialized answer \<Rightarrow> False
           | _ \<Rightarrow> True"
  shows "sync_marks_kept w (perform K getTime act w)"
  using assms
  by (cases act)
     (simp_all add: sync_mutations kept_mutation kept_resetPreferences kept_installLanguage
        kept_uninstallLanguage kept_installCurrency kept_uninstallCurrency kept_logout
        kept_updateUserProfilePhoto kept_handleOnline kept_handleOffline kept_sessionRestored
        kept_onAuthStateChange kept_createWallet kept_refreshWallets kept_switchWallet
        kept_deleteWallet kept_refreshAIInsights,
      simp_all add: sync_marks_kept_def showNotification_def notificationTimeout_def setters)

text \<open>The three calls that can move the marks.\<close>

lemma backupUserData_marks:
  "if backup_succeeds clientTime serialized answer w
   then fst (backupUserData clientTime serialized answer w) = Inr ()
      \<and> \<not> unsyncedChanges (syncState (app (snd (backupUserData clientTime serialized answer w))))
      \<and> lastSync (syncState (app (snd (backupUserData clientTime serialized answer w)))) \<noteq> None
   else syncState (app (snd (backupUserData clientTime serialized answer w))) = syncState (app w)"
  by (cases "user (syncState (app w))")
     (auto simp: backup_succeeds_def backupUserData_def setters split: prod.splits sum.splits)

lemma restoreBackup_marks:
  "if strategy \<noteq> Skip \<and> fst (restoreBackup strategy answer captured w) = Inr True
   then \<not> unsyncedChanges (syncState (app (snd (restoreBackup strategy answer captured w))))
   else sync_marks_kept w (snd (restoreBackup strategy answer captured w))"
proof (cases "strategy = Skip")
  case True
  then show ?thesis by (simp add: restoreBackup_def sync_marks_kept_def setters)
next
  case False
  show ?thesis
  proof (cases "user (syncState captured)")
    case None
    then show ?thesis using False by (simp add: restoreBackup_def kept_refl)
  next
    case (Some u)
    show ?thesis
    proof (cases "cloudDrive_restoreBackup (navigator_onLine w) answer (up_id u) (remote w)")
      case (Pair b c)
      show ?thesis
      proof (cases b)
        case None
        then show ?thesis using False Some Pair
          by (simp add: restoreBackup_def sync_marks_kept_def setters)
      next
        case (Some backup)
        then show ?thesis using False \<open>user (syncState captured) = Some u\<close> Pair
          by (cases strategy; cases "rd_transactions (b_data backup)")
             (simp_all add: restoreBackup_def Let_def sync_marks_kept_def setters)
      qed
    qed
  qed
qed

section \<open>The claims\<close>

text \<open>
  Claim C1. After a backup of the local snapshot S, a restore with strategy replace
  against the record that this backup wrote yields, on whatever local state it runs,
  the value of S in every snapshot field that was truthy in S: the five array and object
  fields always, the budget when it was not zero (a zero budget is not written back and
  the local one stays). The state the backup leaves has the snapshot fields of S, so
  without a local mutation in between all six fields are those of S after the restore.
  The record holds the six fields of S as the backup read them.
\<close>

theorem backup_then_replace_roundtrip:
  assumes logged: "user (syncState (app w)) = Some u"
      and backup: "backupUserData clientTime serialized answer w = (Inr (), w1)"
      and same_user: "user (syncState captured) = Some u"
      and online: "navigator_onLine L"
      and store: "backups (remote L) (up_id u) = backups (remote w1) (up_id u)"
      and restore: "restoreBackup Replace Served captured L = (r, w2)"
  shows "r = Inr True
       \<and> transactions (app w2) = transactions (app w)
       \<and> accounts (app w2) = accounts (app w)
       \<and> categories (app w2) = categories (app w)
       \<and> settings (app w2) = settings (app w)
       \<and> categoryBudgets (app w2) = categoryBudgets (app w)
       \<and> budget (app w2) = (if budget (app w) \<noteq> 0 then budget (app w) else budget (app L))
       \<and> (budget (app L) = budget (app w) \<longrightarrow> budget (app w2) = budget (app w))
       \<and> br_data (the (backups (remote w1) (up_id u))) =
            Some \<lparr>rd_transactions = Some (transactions (app w)), rd_accounts = Some (accounts (app w)),
                  rd_categories = Some (categories (app w)), rd_settings = Some (settings (app w)),
                  rd_budget = Some (budget (app w)), rd_categoryBudgets = Some (categoryBudgets (app w))\<rparr>
       \<and> user (syncState (app w1)) = Some u \<and> navigator_onLine w1
       \<and> transactions (app w1) = transactions (app w) \<and> accounts (app w1) = accounts (app w)
       \<and> categories (app w1) = categories (app w) \<and> settings (app w1) = settings (app w)
       \<and> budget (app w1) = budget (app w) \<and> categoryBudgets (app w1) = categoryBudgets (app w)"
proof -
  obtain res c where cd: "cloudDrive_backupUserData (navigator_onLine w) clientTime serialized answer
        (up_id u) (snapshot (app w)) (remote w) = (Inr res, c)"
    and w1: "w1 = setIsDirty False (setSyncState (\<lambda>prev. prev\<lparr>lastSync := Some (res_timestamp res),
                                              unsyncedChanges := False\<rparr>) (setRemote c w))"
    using logged backup
    by (auto simp: backupUserData_def split: prod.splits sum.splits)
  from backup_success_cases[OF cd] obtain e where
    on: "navigator_onLine w" and
    c: "c = upsert_backup (up_id u) (snapshot (app w)) (backup_metadata clientTime (snapshot (app w))) e
              (sent (Upsert_backups (up_id u)) (remote w))"
    by blast
  have row: "backups (remote w1) (up_id u) =
      Some \<lparr>br_data = Some (snapshot (app w)),
            br_metadata = Some (backup_metadata clientTime (snapshot (app w))), br_updated_at = e\<rparr>"
    by (simp add: w1 c setters upsert_backup_def)
  have fetch: "cloudDrive_restoreBackup (navigator_onLine L) Served (up_id u) (remote L)
      = (Some \<lparr>b_data = snapshot (app w),
               b_metadata = (backup_metadata clientTime (snapshot (app w)))\<lparr>md_timestamp := e\<rparr>\<rparr>,
         sent (Select_backups (up_id u)) (remote L))"
    using online fetch_row [of "remote L" "up_id u"] row store by simp
  have "restoreBackup Replace Served captured L =
     (Inr True,
      setSyncState (\<lambda>prev. prev\<lparr>lastSync := e, pendingRestoreAvailable := False, unsyncedChanges := False\<rparr>)
        (replace_fields (snapshot (app w)) (setRemote (sent (Select_backups (up_id u)) (remote L)) L)))"
    using restoreBackup_Replace_eq[OF same_user fetch] by simp
  with restore have r: "r = Inr True" and w2: "w2 =
      setSyncState (\<lambda>prev. prev\<lparr>lastSync := e, pendingRestoreAvailable := False, unsyncedChanges := False\<rparr>)
        (replace_fields (snapshot (app w)) (setRemote (sent (Select_backups (up_id u)) (remote L)) L))"
    by simp_all
  have fields: "transactions (app w2) = transactions (app w)"
      "accounts (app w2) = accounts (app w)"
      "categories (app w2) = categories (app w)"
      "settings (app w2) = settings (app w)"
      "categoryBudgets (app w2) = categoryBudgets (app w)"
      "budget (app w2) = (if budget (app w) \<noteq> 0 then budget (app w) else budget (app L))"
    by (simp_all add: w2 replace_fields_eq snapshot_def setters truthy_number_def)
  have stored: "br_data (the (backups (remote w1) (up_id u))) =
            Some \<lparr>rd_transactions = Some (transactions (app w)), rd_accounts = Some (accounts (app w)),
                  rd_categories = Some (categories (app w)), rd_settings = Some (settings (app w)),
                  rd_budget = Some (budget (app w)), rd_categoryBudgets = Some (categoryBudgets (app w))\<rparr>"
    by (simp add: row snapshot_def)
  have left: "user (syncState (app w1)) = Some u" "navigator_onLine w1"
      "transactions (app w1) = transactions (app w)" "accounts (app w1) = accounts (app w)"
      "categories (app w1) = categories (app w)" "settings (app w1) = settings (app w)"
      "budget (app w1) = budget (app w)" "categoryBudgets (app w1) = categoryBudgets (app w)"
    using logged on by (simp_all add: w1 setters)
  show ?thesis
    using r fields stored left by simp
qed

theorem backup_then_replace_roundtrip_witness:
  "fst (backupUserData ''2024-05-02T08:00:00.000Z'' (Inr 2048)
          (Echoed (Some ''2024-05-02T08:00:01.000Z'')) example_world) = Inr ()
   \<and> transactions (app example_world) = [example_tx ''t1'' 12]
   \<and> budget (app example_world) = 100
   \<and> transactions (app second_device_world) = []
   \<and> budget (app second_device_world) = 0
   \<and> fst (restoreBackup Replace Served (app second_device_world) second_device_world) = Inr True
   \<and> transactions (app (snd (restoreBackup Replace Served (app second_device_world) second_device_world)))
       = [example_tx ''t1'' 12]
   \<and> budget (app (snd (restoreBackup Replace Served (app second_device_world) second_device_world))) = 100"
proof -
  have b: "backupUserData ''2024-05-02T08:00:00.000Z'' (Inr 2048)
          (Echoed (Some ''2024-05-02T08:00:01.000Z'')) example_world = (Inr (), backed_up_world)"
    using backed_up_world_ok unfolding backed_up_world_def by (metis prod.collapse)
  have s: "backups (remote second_device_world) (up_id example_profile)
      = backups (remote backed_up_world) (up_id example_profile)"
    by (simp add: second_device_world_facts(3))
  have p: "restoreBackup Replace Served (app second_device_world) second_device_world
     = (fst (restoreBackup Replace Served (app second_device_world) second_device_world),
        snd (restoreBackup Replace Served (app second_device_world) second_device_world))"
    by simp
  show ?thesis
    using backup_then_replace_roundtrip [OF example_world_user b second_device_world_facts(1)
        second_device_world_facts(2) s p]
      backed_up_world_ok second_device_world_facts(4,5)
    by (simp add: example_world_app)
qed

text \<open>
  Claim C2. A restore with strategy replace overwrites each of the six snapshot fields
  with the remote value exactly when the remote field is present and truthy, each field
  on its own: a remote record without accounts leaves the local accounts as they were
  (and a remote budget of zero leaves the local budget). This holds through whichever
  callback the call is made, as long as it has captured a logged-in user.
\<close>

theorem restore_replace_fieldwise:
  assumes "user (syncState captured) = Some u"
      and "cloudDrive_restoreBackup (navigator_onLine w) answer (up_id u) (remote w) = (Some backup, c)"
      and "restoreBackup Replace answer captured w = (r, w')"
  shows "r = Inr True
       \<and> transactions (app w') = (case rd_transactions (b_data backup) of Some v \<Rightarrow> v | None \<Rightarrow> transactions (app w))
       \<and> accounts (app w') = (case rd_accounts (b_data backup) of Some v \<Rightarrow> v | None \<Rightarrow> accounts (app w))
       \<and> categories (app w') = (case rd_categories (b_data backup) of Some v \<Rightarrow> v | None \<Rightarrow> categories (app w))
       \<and> settings (app w') = (case rd_settings (b_data backup) of Some v \<Rightarrow> v | None \<Rightarrow> settings (app w))
       \<and> budget (app w') = (if truthy_number (rd_budget (b_data backup)) then the (rd_budget (b_data backup)) else budget (app w))
       \<and> categoryBudgets (app w') = (case rd_categoryBudgets (b_data backup) of Some v \<Rightarrow> v | None \<Rightarrow> categoryBudgets (app w))
       \<and> (rd_accounts (b_data backup) = None \<longrightarrow> accounts (app w') = accounts (app w))"
proof -
  have "restoreBackup Replace answer captured w =
     (Inr True,
      setSyncState (\<lambda>prev. prev\<lparr>lastSync := md_timestamp (b_metadata backup),
                                  pendingRestoreAvailable := False, unsyncedChanges := False\<rparr>)
        (replace_fields (b_data backup) (setRemote c w)))"
    using assms(1,2) by (rule restoreBackup_Replace_eq)
  with assms(3) have r: "r = Inr True" and w': "w' =
      setSyncState (\<lambda>prev. prev\<lparr>lastSync := md_timestamp (b_metadata backup),
                                  pendingRestoreAvailable := False, unsyncedChanges := False\<rparr>)
        (replace_fields (b_data backup) (setRemote c w))"
    by simp_all
  show ?thesis
    by (simp add: r w' replace_fields_eq setters cong: option.case_cong)
qed

theorem restore_replace_fieldwise_witness:
  "fst (restoreBackup Replace Served (app partial_world) partial_world) = Inr True
   \<and> transactions (app (snd (restoreBackup Replace Served (app partial_world) partial_world)))
        = [example_tx ''t1'' 12, example_tx ''t2'' 30]
   \<and> accounts (app (snd (restoreBackup Replace Served (app partial_world) partial_world))) = [example_account]
   \<and> budget (app (snd (restoreBackup Replace Served (app partial_world) partial_world))) = 100"
proof -
  have u: "user (syncState (app partial_world)) = Some example_profile"
    using example_world_user by (simp add: partial_world_def)
  have f: "cloudDrive_restoreBackup (navigator_onLine partial_world) Served (up_id example_profile) (remote partial_world)
     = (Some \<lparr>b_data = the (br_data partial_backup),
              b_metadata = \<lparr>md_source = None, md_version = None,
                            md_timestamp = Some ''2024-05-03T00:00:00.000Z'', md_items_count = None\<rparr>\<rparr>,
        sent (Select_backups ''u1'') (remote partial_world))"
    using partial_world_fetch example_world_env(1)
    by (simp add: partial_world_def example_profile_def)
  have p: "restoreBackup Replace Served (app partial_world) partial_world
     = (fst (restoreBackup Replace Served (app partial_world) partial_world), snd (restoreBackup Replace Served (app partial_world) partial_world))"
    by simp
  have a: "accounts (app partial_world) = [example_account]" "budget (app partial_world) = 100"
    using example_world_app by (simp_all add: partial_world_def)
  show ?thesis
    using restore_replace_fieldwise [OF u f p]
    by (simp add: partial_backup_def truthy_number_def a)
qed

text \<open>
  Through the callback of a render that has seen the first merge, a second merge finds
  every remote id present and leaves the application state as it is.
\<close>

lemma merge_again_through_latest_callback:
  assumes first: "restoreBackup Merge a1 (app w) w = (Inr True, w1)"
  shows "app (snd (restoreBackup Merge a2 (app w1) w1)) = app w1"
proof -
  obtain u backup c remoteTxs where
    u: "user (syncState (app w)) = Some u" and
    f: "cloudDrive_restoreBackup (navigator_onLine w) a1 (up_id u) (remote w) = (Some backup, c)" and
    r: "rd_transactions (b_data backup) = Some remoteTxs" and
    w1: "w1 = setSyncState (\<lambda>prev. prev\<lparr>lastSync := md_timestamp (b_metadata backup),
                                                     pendingRestoreAvailable := False,
                                                     unsyncedChanges := False\<rparr>)
               (setTransactions (transactions (app w) @ merge_new (transactions (app w)) remoteTxs) (setRemote c w))"
    using first
    by (auto simp: restoreBackup_def Let_def setters split: option.splits prod.splits)
  have on: "navigator_onLine w" and c: "c = sent (Select_backups (up_id u)) (remote w)"
    using f by (auto simp: cloudDrive_restoreBackup_def Let_def split: if_splits reply.splits option.splits)
  have tx1: "transactions (app w1) = transactions (app w) @ merge_new (transactions (app w)) remoteTxs"
    by (simp add: w1 setters)
  have again: "merge_new (transactions (app w1)) remoteTxs = []"
    by (simp add: tx1 merge_new_again)
  have second: "cloudDrive_restoreBackup (navigator_onLine w1) a2 (up_id u) (remote w1)
       = (if a2 = Served then Some backup else None, sent (Select_backups (up_id u)) c)"
    using f on
    by (auto simp: w1 c setters cloudDrive_restoreBackup_def sent_def Let_def split: reply.splits option.splits)
  have u1: "user (syncState (app w1)) = Some u"
    using u by (simp add: w1 setters)
  show ?thesis
    using u1 second r again
    by (cases "a2 = Served") (simp_all add: restoreBackup_def Let_def, simp_all add: w1 setters)
qed



text \<open>
  Claim C4, as the code has it. On every successful backup the local \<^verbatim>\<open>lastSync\<close> is
  set to the \<^verbatim>\<open>updated_at\<close> value the remote store returns for the upserted row when
  that value is present and not empty, and to the client's clock time otherwise
  (\<^verbatim>\<open>data?.updated_at || clientTime\<close>); \<^verbatim>\<open>unsyncedChanges\<close> is cleared.
\<close>

theorem backup_sets_lastSync:
  assumes "user (syncState (app w)) = Some u"
      and "backupUserData clientTime serialized answer w = (Inr (), w1)"
  shows "\<exists>updated_at. answer = Echoed updated_at
       \<and> lastSync (syncState (app w1)) = Some (if truthy_string updated_at then the updated_at else clientTime)
       \<and> (truthy_string updated_at \<longrightarrow> lastSync (syncState (app w1)) = updated_at)
       \<and> \<not> unsyncedChanges (syncState (app w1))"
proof -
  obtain res c where cd: "cloudDrive_backupUserData (navigator_onLine w) clientTime serialized answer
        (up_id u) (snapshot (app w)) (remote w) = (Inr res, c)"
    and w1: "w1 = setIsDirty False (setSyncState (\<lambda>prev. prev\<lparr>lastSync := Some (res_timestamp res),
                                              unsyncedChanges := False\<rparr>) (setRemote c w))"
    using assms
    by (auto simp: backupUserData_def split: prod.splits sum.splits)
  from backup_success_cases[OF cd] obtain e where
    a: "answer = Echoed e" and
    res: "res = \<lparr>res_timestamp = (if truthy_string e then the e else clientTime), res_skipped = False\<rparr>"
    by blast
  show ?thesis
    using a by (auto simp: w1 res setters truthy_string_def split: option.splits)
qed

theorem backup_sets_lastSync_witness:
  "fst (backupUserData ''2024-05-02T08:00:00.000Z'' (Inr 2048) (Echoed (Some ''2024-05-02T08:00:01.000Z'')) example_world)
     = Inr ()
   \<and> lastSync (syncState (app (snd (backupUserData ''2024-05-02T08:00:00.000Z'' (Inr 2048)
        (Echoed (Some ''2024-05-02T08:00:01.000Z'')) example_world))))
     = Some ''2024-05-02T08:00:01.000Z''"
proof -
  let ?b = "backupUserData ''2024-05-02T08:00:00.000Z'' (Inr 2048) (Echoed (Some ''2024-05-02T08:00:01.000Z'')) example_world"
  have ok: "fst ?b = Inr ()"
    by (simp add: backupUserData_def example_world_user example_world_env cloudDrive_backupUserData_def
          MAX_PAYLOAD_SIZE_BYTES_def Let_def)
  then have b: "?b = (Inr (), snd ?b)"
    by (metis prod.collapse)
  show ?thesis
    using backup_sets_lastSync [OF example_world_user b] ok
    by (simp add: truthy_string_def)
qed

text \<open>
  The claim as stated fails where the store's answer carries no \<^verbatim>\<open>updated_at\<close>: the
  backup succeeds and \<^verbatim>\<open>lastSync\<close> is the client's clock time.
\<close>

theorem backup_lastSync_client_clock:
  "fst (backupUserData ''2024-05-02T08:00:00.000Z'' (Inr 2048) (Echoed None) example_world) = Inr ()
   \<and> lastSync (syncState (app (snd (backupUserData ''2024-05-02T08:00:00.000Z'' (Inr 2048) (Echoed None) example_world))))
       = Some ''2024-05-02T08:00:00.000Z''
   \<and> lastSync (syncState (app (snd (backupUserData ''2024-05-02T08:00:00.000Z'' (Inr 2048) (Echoed None) example_world))))
       \<noteq> None"
  by (simp add: backupUserData_def example_world_user example_world_env cloudDrive_backupUserData_def
        MAX_PAYLOAD_SIZE_BYTES_def Let_def truthy_string_def setters)

text \<open>
  Claim C5, as the code has it. The login-time check sets \<^verbatim>\<open>pendingRestoreAvailable\<close>
  exactly when \<^verbatim>\<open>cloudDrive.restoreBackup\<close> returns a record whose timestamp is not
  empty and parses to a time strictly greater than the time of the stored
  \<^verbatim>\<open>lastSync\<close> (0 when that is null or empty); it never clears the flag. So with a
  null \<^verbatim>\<open>lastSync\<close> the flag is set for every returned record whose timestamp is later
  than the Unix epoch. When no record is returned (offline, fetch error, no row, row
  without data) the application state is unchanged.
\<close>

theorem checkCloudBackup_flag:
  "pendingRestoreAvailable (syncState (app (checkCloudBackup getTime answer userId w))) =
     (pendingRestoreAvailable (syncState (app w)) \<or>
      (case fst (cloudDrive_restoreBackup (navigator_onLine w) answer userId (remote w)) of
         None \<Rightarrow> False
       | Some backup \<Rightarrow>
           truthy_string (md_timestamp (b_metadata backup)) \<and>
           js_gt (getTime (the (md_timestamp (b_metadata backup))))
                 (if truthy_string (ls_LAST_SYNC (localStorage w))
                  then getTime (the (ls_LAST_SYNC (localStorage w))) else Some 0)))
   \<and> (ls_LAST_SYNC (localStorage w) = None
        \<and> fst (cloudDrive_restoreBackup (navigator_onLine w) answer userId (remote w)) = Some backup
        \<and> md_timestamp (b_metadata backup) = Some ts \<and> ts \<noteq> [] \<and> getTime ts = Some t \<and> 0 < t
       \<longrightarrow> pendingRestoreAvailable (syncState (app (checkCloudBackup getTime answer userId w))))
   \<and> (fst (cloudDrive_restoreBackup (navigator_onLine w) answer userId (remote w)) = None
       \<longrightarrow> app (checkCloudBackup getTime answer userId w) = app w)"
  by (cases "cloudDrive_restoreBackup (navigator_onLine w) answer userId (remote w)")
     (auto simp: checkCloudBackup_def Let_def setters truthy_string_def js_gt_def split: option.splits)

lemma epoch_world_facts:
  "navigator_onLine epoch_world"
  "ls_LAST_SYNC (localStorage epoch_world) = None"
  "pendingRestoreAvailable (syncState (app epoch_world)) = False"
  "backups (remote epoch_world) ''u1'' = Some (partial_backup\<lparr>br_updated_at := Some ''1970-01-01T00:00:00.000Z''\<rparr>)"
  by (simp_all add: epoch_world_def example_world_def mount_def setSyncState_def Let_def
        example_storage_def localStorage_clear_def)

lemma partial_world_facts:
  "ls_LAST_SYNC (localStorage partial_world) = None"
  "pendingRestoreAvailable (syncState (app partial_world)) = False"
  by (simp_all add: partial_world_def example_world_def mount_def setSyncState_def Let_def
        example_storage_def localStorage_clear_def)

theorem checkCloudBackup_flag_witness:
  "ls_LAST_SYNC (localStorage partial_world) = None
   \<and> \<not> pendingRestoreAvailable (syncState (app partial_world))
   \<and> pendingRestoreAvailable (syncState (app (checkCloudBackup example_getTime Served ''u1'' partial_world)))"
proof -
  have f: "fst (cloudDrive_restoreBackup (navigator_onLine partial_world) Served ''u1'' (remote partial_world))
     = Some \<lparr>b_data = the (br_data partial_backup),
              b_metadata = \<lparr>md_source = None, md_version = None,
                            md_timestamp = Some ''2024-05-03T00:00:00.000Z'', md_items_count = None\<rparr>\<rparr>"
    using partial_world_fetch partial_world_app(5) by simp
  have g: "example_getTime ''2024-05-03T00:00:00.000Z'' = Some 1714694400000"
    by (simp add: example_getTime_def)
  show ?thesis
    using checkCloudBackup_flag [of example_getTime Served "''u1''" partial_world _
        "''2024-05-03T00:00:00.000Z''" 1714694400000] f g partial_world_facts
    by (simp add: truthy_string_def js_gt_def)
qed

text \<open>
  The claim as stated fails for a remote record whose timestamp is the Unix epoch: with a
  null local \<^verbatim>\<open>lastSync\<close> the record exists and is fetched, and the flag stays false
  (0 is not greater than 0).
\<close>

theorem checkCloudBackup_epoch_record:
  "ls_LAST_SYNC (localStorage epoch_world) = None
   \<and> backups (remote epoch_world) ''u1'' \<noteq> None
   \<and> fst (cloudDrive_restoreBackup (navigator_onLine epoch_world) Served ''u1'' (remote epoch_world)) \<noteq> None
   \<and> example_getTime ''1970-01-01T00:00:00.000Z'' = Some 0
   \<and> \<not> pendingRestoreAvailable (syncState (app (checkCloudBackup example_getTime Served ''u1'' epoch_world)))"
  by (simp add: epoch_world_facts checkCloudBackup_def cloudDrive_restoreBackup_def Let_def partial_backup_def
        example_getTime_def truthy_string_def js_gt_def setters)

text \<open>
  Claim C6. On a device that is online, a payload of exactly 6 MiB passes the size check:
  the upsert is sent, and a served upsert makes the backup succeed. A payload one byte
  over fails with the size error, whatever the store would answer, and the remote store
  and its request log are as before: no request is sent.
\<close>

theorem backup_size_ceiling:
  assumes "onLine"
  shows "(\<forall>answer. requests (snd (cloudDrive_backupUserData onLine clientTime (Inr MAX_PAYLOAD_SIZE_BYTES) answer userId appData c))
            = requests c @ [Upsert_backups userId])
       \<and> (\<forall>e. fst (cloudDrive_backupUserData onLine clientTime (Inr MAX_PAYLOAD_SIZE_BYTES) (Echoed e) userId appData c)
            = Inr \<lparr>res_timestamp = (if truthy_string e then the e else clientTime), res_skipped = False\<rparr>)
       \<and> (\<forall>answer. cloudDrive_backupUserData onLine clientTime (Inr (MAX_PAYLOAD_SIZE_BYTES + 1)) answer userId appData c
            = (Inl (DataSizeExceeds (MAX_PAYLOAD_SIZE_BYTES + 1)), c))
       \<and> MAX_PAYLOAD_SIZE_BYTES = 6 * 1024 * 1024"
  using assms
  by (auto simp: cloudDrive_backupUserData_def sent_def upsert_backup_def Let_def MAX_PAYLOAD_SIZE_BYTES_def
      split: upsert_reply.splits)

theorem backup_size_ceiling_witness:
  "requests (snd (cloudDrive_backupUserData True ''2024-05-02T08:00:00.000Z'' (Inr 6291456)
       (Echoed (Some ''2024-05-02T08:00:01.000Z'')) ''u1'' (snapshot (app example_world)) empty_cloud))
     = [Upsert_backups ''u1'']
   \<and> fst (cloudDrive_backupUserData True ''2024-05-02T08:00:00.000Z'' (Inr 6291456)
       (Echoed (Some ''2024-05-02T08:00:01.000Z'')) ''u1'' (snapshot (app example_world)) empty_cloud)
     = Inr \<lparr>res_timestamp = ''2024-05-02T08:00:01.000Z'', res_skipped = False\<rparr>
   \<and> cloudDrive_backupUserData True ''2024-05-02T08:00:00.000Z'' (Inr 6291457)
       (Echoed (Some ''2024-05-02T08:00:01.000Z'')) ''u1'' (snapshot (app example_world)) empty_cloud
     = (Inl (DataSizeExceeds 6291457), empty_cloud)"
proof -
  have m: "MAX_PAYLOAD_SIZE_BYTES = 6291456" "MAX_PAYLOAD_SIZE_BYTES + 1 = 6291457"
    by (simp_all add: MAX_PAYLOAD_SIZE_BYTES_def)
  have r: "requests empty_cloud = []"
    by (simp add: empty_cloud_def)
  show ?thesis
    using backup_size_ceiling [of True "''2024-05-02T08:00:00.000Z''" "''u1''"
        "snapshot (app example_world)" empty_cloud]
    unfolding m by (simp add: r truthy_string_def)
qed

lemma tick_marks:
  "if autoBackup_due getTime now w \<and> backup_succeeds clientTime serialized answer w
   then \<not> unsyncedChanges (syncState (app (autoBackup_tick getTime now clientTime serialized answer w)))
   else syncState (app (autoBackup_tick getTime now clientTime serialized answer w)) = syncState (app w)"
  using backupUserData_marks [of clientTime serialized answer w]
  by (simp add: autoBackup_tick_def split: if_splits)

text \<open>
  Claim C7. Every local mutation (adding, updating, deleting or importing a transaction;
  adding, renaming or deleting an account or a category; changing the budget, a category
  budget or the settings) sets \<^verbatim>\<open>unsyncedChanges\<close>. A call of the provider turns the
  flag from true to false only if it is a backup that succeeds (manual, or started by the
  auto-backup timer) or a restore with strategy replace or merge that succeeds; and
  these do clear it. Here a call is any call or event of a mounted provider; a page load
  starts a new provider, whose flag is initialised to false.
\<close>

theorem unsyncedChanges_set_and_cleared:
  "(local_mutation act \<longrightarrow> unsyncedChanges (syncState (app (step K getTime act w))))
   \<and> (unsyncedChanges (syncState (app w)) \<and> \<not> unsyncedChanges (syncState (app (step K getTime act w)))
        \<longrightarrow> manual_backup_succeeds act w \<or> auto_backup_succeeds getTime act w \<or> restore_succeeds act w)
   \<and> (manual_backup_succeeds act w \<or> auto_backup_succeeds getTime act w \<or> restore_succeeds act w
        \<longrightarrow> \<not> unsyncedChanges (syncState (app (step K getTime act w))))"
proof -
  have other: "sync_marks_kept w (perform K getTime act w)"
    if "case act of
          BackupUserData clientTime serialized answer \<Rightarrow> False
        | RestoreBackup captured strategy answer \<Rightarrow> False
        | AutoBackupTick now clientTime serialized answer \<Rightarrow> False
        | _ \<Rightarrow> True"
    using that by (rule perform_keeps_marks)
  show ?thesis
  proof (cases act)
    case (BackupUserData clientTime serialized answer)
    then show ?thesis
      using backupUserData_marks [of clientTime serialized answer w]
      by (auto simp: step_def app_persist_effects local_mutation_def manual_backup_succeeds_def
            auto_backup_succeeds_def restore_succeeds_def split: if_splits)
  next
    case (RestoreBackup captured strategy answer)
    then show ?thesis
      using restoreBackup_marks [of strategy answer captured w]
      by (auto simp: step_def app_persist_effects local_mutation_def manual_backup_succeeds_def
            auto_backup_succeeds_def restore_succeeds_def sync_marks_kept_def split: if_splits)
  next
    case (AutoBackupTick now clientTime serialized answer)
    then show ?thesis
      using tick_marks [of getTime now w clientTime serialized answer]
      by (auto simp: step_def app_persist_effects local_mutation_def manual_backup_succeeds_def
            auto_backup_succeeds_def restore_succeeds_def split: if_splits)
  qed (use other in \<open>simp_all add: step_def app_persist_effects local_mutation_def
         manual_backup_succeeds_def auto_backup_succeeds_def restore_succeeds_def
         sync_marks_kept_def sync_mutations\<close>)
qed

lemma example_world_marks:
  "unsyncedChanges (syncState (app example_world)) = False"
  "lastSync (syncState (app example_world)) = None"
  "isLoggedIn (syncState (app example_world))"
  "isOnline (syncState (app example_world))"
  by (simp_all add: example_world_def mount_def setSyncState_def Let_def example_storage_def
        localStorage_clear_def)

theorem unsyncedChanges_set_and_cleared_witness:
  "local_mutation (UpdateBudget 250)
   \<and> \<not> unsyncedChanges (syncState (app example_world))
   \<and> unsyncedChanges (syncState (app (step example_constants example_getTime (UpdateBudget 250) example_world)))
   \<and> manual_backup_succeeds
        (BackupUserData ''2024-05-02T08:00:00.000Z'' (Inr 2048) (Echoed (Some ''2024-05-02T08:00:01.000Z'')))
        (step example_constants example_getTime (UpdateBudget 250) example_world)
   \<and> \<not> unsyncedChanges (syncState (app
        (step example_constants example_getTime
           (BackupUserData ''2024-05-02T08:00:00.000Z'' (Inr 2048) (Echoed (Some ''2024-05-02T08:00:01.000Z'')))
           (step example_constants example_getTime (UpdateBudget 250) example_world))))"
proof -
  let ?d = "step example_constants example_getTime (UpdateBudget 250) example_world"
  let ?b = "BackupUserData ''2024-05-02T08:00:00.000Z'' (Inr 2048) (Echoed (Some ''2024-05-02T08:00:01.000Z''))"
  have m: "local_mutation (UpdateBudget 250)"
    by (simp add: local_mutation_def)
  have d: "user (syncState (app ?d)) = Some example_profile" "navigator_onLine ?d"
    using example_world_user example_world_env
    by (simp_all add: step_def app_persist_effects sync_mutations persist_effects_def Let_def
          updateBudget_def markAsDirty_def setters)
  have s: "manual_backup_succeeds ?b ?d"
    by (simp add: manual_backup_succeeds_def backup_succeeds_def d cloudDrive_backupUserData_def
          MAX_PAYLOAD_SIZE_BYTES_def Let_def)
  show ?thesis
    using unsyncedChanges_set_and_cleared [of "UpdateBudget 250" example_constants example_getTime example_world]
      unsyncedChanges_set_and_cleared [of ?b example_constants example_getTime ?d]
      m s example_world_marks(1)
    by simp
qed

text \<open>The null branch of \<^verbatim>\<open>switchWallet\<close> never sets the budget.\<close>

lemma switchWallet_null_budget: "budget (app (snd (switchWallet K None answer w))) = budget (app w)"
  by (simp add: switchWallet_def Let_def truthy_string_def setters)

lemma wallet_world_facts:
  "user (syncState (app wallet_world)) = Some example_profile"
  "navigator_onLine wallet_world"
  "transactions (app wallet_world) = [example_tx ''t1'' 12]"
  "budget (app wallet_world) = 100"
  "ls_TRANSACTIONS (localStorage wallet_world) = Some [example_tx ''t1'' 12]"
  "ls_BUDGET (localStorage wallet_world) = Some 100"
  "activeWalletId (syncState (app wallet_world)) = None"
  by (simp_all add: wallet_world_def example_world_def mount_def setSyncState_def Let_def example_storage_def
        localStorage_clear_def storage_get_def)

lemma wallet_world_switched:
  "transactions (app (step example_constants example_getTime (SwitchWallet (Some ''w1'') Served) wallet_world))
     = [example_tx ''t7'' 70]"
  "accounts (app (step example_constants example_getTime (SwitchWallet (Some ''w1'') Served) wallet_world)) = []"
  "categories (app (step example_constants example_getTime (SwitchWallet (Some ''w1'') Served) wallet_world)) = []"
  "budget (app (step example_constants example_getTime (SwitchWallet (Some ''w1'') Served) wallet_world)) = 500"
  "ls_TRANSACTIONS (localStorage (step example_constants example_getTime (SwitchWallet (Some ''w1'') Served) wallet_world))
     = Some [example_tx ''t7'' 70]"
  "ls_ACCOUNTS (localStorage (step example_constants example_getTime (SwitchWallet (Some ''w1'') Served) wallet_world))
     = Some []"
  "ls_CATEGORIES (localStorage (step example_constants example_getTime (SwitchWallet (Some ''w1'') Served) wallet_world))
     = Some []"
  "ls_BUDGET (localStorage (step example_constants example_getTime (SwitchWallet (Some ''w1'') Served) wallet_world))
     = Some 500"
  by (simp_all add: step_def switchWallet_def cloudDrive_getWalletData_def persist_effects_def Let_def
        truthy_string_def sent_def setters wallet_world_def example_world_def mount_def
        example_storage_def localStorage_clear_def storage_get_def empty_cloud_def example_tx_def
        example_constants_def example_account_def example_category_def)

text \<open>
  Claim C8 does not hold of the code. After a switch to a wallet whose data is fetched,
  the persistence effects write the wallet's transactions, accounts, categories and
  budget under the personal keys of the local store; \<^verbatim>\<open>switchWallet(null)\<close> then reads
  these keys back, and it never sets the budget. The personal transaction and the
  budget of 100 are gone: the working state keeps the wallet's transaction and its
  budget of 500.
\<close>

theorem switchWallet_null_after_wallet:
  "transactions (app wallet_world) = [example_tx ''t1'' 12]
   \<and> budget (app wallet_world) = 100
   \<and> ls_TRANSACTIONS (localStorage wallet_world) = Some [example_tx ''t1'' 12]
   \<and> ls_BUDGET (localStorage wallet_world) = Some 100
   \<and> transactions (app (step example_constants example_getTime (SwitchWallet None Served)
        (step example_constants example_getTime (SwitchWallet (Some ''w1'') Served) wallet_world)))
       = [example_tx ''t7'' 70]
   \<and> budget (app (step example_constants example_getTime (SwitchWallet None Served)
        (step example_constants example_getTime (SwitchWallet (Some ''w1'') Served) wallet_world)))
       = 500
   \<and> activeWalletId (syncState (app (step example_constants example_getTime (SwitchWallet None Served)
        (step example_constants example_getTime (SwitchWallet (Some ''w1'') Served) wallet_world))))
       = None"
proof -
  let ?w1 = "step example_constants example_getTime (SwitchWallet (Some ''w1'') Served) wallet_world"
  have t: "transactions (app (step example_constants example_getTime (SwitchWallet None Served) ?w1))
      = [example_tx ''t7'' 70]"
    by (simp add: step_def [of _ _ "SwitchWallet None Served"] app_persist_effects switchWallet_def Let_def
          truthy_string_def setters storage_get_def wallet_world_switched)
  have b: "budget (app (step example_constants example_getTime (SwitchWallet None Served) ?w1)) = 500"
    by (simp add: step_def [of _ _ "SwitchWallet None Served"] app_persist_effects switchWallet_null_budget
          wallet_world_switched)
  have a: "activeWalletId (syncState (app (step example_constants example_getTime (SwitchWallet None Served) ?w1))) = None"
    by (simp add: step_def [of _ _ "SwitchWallet None Served"] app_persist_effects switchWallet_def Let_def
          truthy_string_def setters)
  show ?thesis
    using t b a wallet_world_facts by simp
qed

text \<open>
  Claim C9, as the code has it. When the wallet insert is served and the membership
  insert is refused, \<^verbatim>\<open>createWallet\<close> sends a compensating delete for the wallet row
  and reports an error. The answer to that delete is not read: the wallet row is gone
  when the delete is served (with a fresh id the table is as it was before the call), and
  stays when the delete is refused. No membership row is written.
\<close>

theorem createWallet_rollback:
  assumes "onLine"
  shows "isl (fst (cloudDrive_createWallet onLine Served newId createdAt (Refused e) a3 userId walletName cc c))
       \<and> requests (snd (cloudDrive_createWallet onLine Served newId createdAt (Refused e) a3 userId walletName cc c))
           = requests c @ [Insert_wallets walletName, Insert_wallet_members newId userId, Delete_wallets newId]
       \<and> wallet_members (snd (cloudDrive_createWallet onLine Served newId createdAt (Refused e) a3 userId walletName cc c))
           = wallet_members c
       \<and> (a3 = Served \<longrightarrow>
            fst (cloudDrive_createWallet onLine Served newId createdAt (Refused e) a3 userId walletName cc c)
              = Inl (member_insert_failure e)
          \<and> wallets_table (snd (cloudDrive_createWallet onLine Served newId createdAt (Refused e) a3 userId walletName cc c))
              = filter (\<lambda>r. wr_id r \<noteq> newId) (wallets_table c)
          \<and> (newId \<notin> wr_id ` set (wallets_table c) \<longrightarrow>
               wallets_table (snd (cloudDrive_createWallet onLine Served newId createdAt (Refused e) a3 userId walletName cc c))
                 = wallets_table c))
       \<and> (a3 \<noteq> Served \<longrightarrow>
            wallets_table (snd (cloudDrive_createWallet onLine Served newId createdAt (Refused e) a3 userId walletName cc c))
              = wallets_table c @ [\<lparr>wr_id = newId, wr_name = walletName, wr_currency = cc,
                                     wr_created_by = userId, wr_created_at = createdAt\<rparr>])"
proof -
  have keep: "newId \<notin> wr_id ` set xs \<Longrightarrow> filter (\<lambda>r. wr_id r \<noteq> newId) xs = xs" for xs :: "WalletRow list"
    by (induction xs) auto
  show ?thesis
    using assms keep[of "wallets_table c"]
    by (cases a3) (simp_all add: cloudDrive_createWallet_def Let_def sent_def delete_wallet_row_def)
qed

theorem createWallet_rollback_witness:
  "fst (cloudDrive_createWallet True Served ''w1'' (Some ''2024-05-04T00:00:00.000Z'')
          (Refused rls_error) Served ''u1'' ''Home'' ''USD'' empty_cloud)
     = Inl (AssignOwnerFailed ''new row violates row-level security policy'')
   \<and> wallets_table (snd (cloudDrive_createWallet True Served ''w1'' (Some ''2024-05-04T00:00:00.000Z'')
          (Refused rls_error) Served ''u1'' ''Home'' ''USD'' empty_cloud)) = []
   \<and> requests (snd (cloudDrive_createWallet True Served ''w1'' (Some ''2024-05-04T00:00:00.000Z'')
          (Refused rls_error) Served ''u1'' ''Home'' ''USD'' empty_cloud))
     = [Insert_wallets ''Home'', Insert_wallet_members ''w1'' ''u1'', Delete_wallets ''w1'']"
proof -
  have m: "member_insert_failure rls_error = AssignOwnerFailed ''new row violates row-level security policy''"
    unfolding member_insert_failure_def rls_error_def by code_simp
  show ?thesis
    using createWallet_rollback [of True "''w1''" "Some ''2024-05-04T00:00:00.000Z''" rls_error Served
        "''u1''" "''Home''" "''USD''" empty_cloud]
    by (simp add: m empty_cloud_def)
qed

text \<open>
  The claim as stated fails when the compensating delete is refused as well (the
  connection lost after the first insert, or a policy that denies the delete): the call
  reports its error and the wallet row stays.
\<close>

theorem createWallet_residual_row:
  "isl (fst (cloudDrive_createWallet True Served ''w1'' (Some ''2024-05-04T00:00:00.000Z'')
          (Refused rls_error) (Refused rls_error) ''u1'' ''Home'' ''USD'' empty_cloud))
   \<and> wallets_table (snd (cloudDrive_createWallet True Served ''w1'' (Some ''2024-05-04T00:00:00.000Z'')
          (Refused rls_error) (Refused rls_error) ''u1'' ''Home'' ''USD'' empty_cloud))
     = [\<lparr>wr_id = ''w1'', wr_name = ''Home'', wr_currency = ''USD'', wr_created_by = ''u1'',
          wr_created_at = Some ''2024-05-04T00:00:00.000Z''\<rparr>]
   \<and> wallet_members (snd (cloudDrive_createWallet True Served ''w1'' (Some ''2024-05-04T00:00:00.000Z'')
          (Refused rls_error) (Refused rls_error) ''u1'' ''Home'' ''USD'' empty_cloud)) = []"
  by (simp add: cloudDrive_createWallet_def Let_def sent_def empty_cloud_def)

text \<open>
  Claim C10. While \<^verbatim>\<open>lastSync\<close> is null the auto-backup effect never backs up: its
  evaluation leaves the application state, the local store and the remote store with its
  request log as they are, whatever the login state, the connectivity and the configured
  interval. And \<^verbatim>\<open>lastSync\<close> goes from null to a value only in a manual backup that
  succeeds or in a restore that succeeds: an automatic backup can only come after one of
  these (or after a page load that finds \<^verbatim>\<open>lastSync\<close> in the local store).
\<close>

theorem autoBackup_needs_lastSync:
  "(lastSync (syncState (app w)) = None \<longrightarrow>
       \<not> autoBackup_due getTime now w
     \<and> step K getTime (AutoBackupTick now clientTime serialized answer) w = w)
   \<and> (auto_backup_succeeds getTime act w \<longrightarrow> lastSync (syncState (app w)) \<noteq> None)
   \<and> (lastSync (syncState (app w)) = None \<and> lastSync (syncState (app (step K getTime act w))) \<noteq> None
        \<longrightarrow> manual_backup_succeeds act w \<or> restore_succeeds act w)"
proof -
  have due: "\<not> autoBackup_due getTime n w" if "lastSync (syncState (app w)) = None" for n
    using that by (simp add: autoBackup_due_def Let_def truthy_string_def)
  have other: "sync_marks_kept w (perform K getTime act w)"
    if "case act of
          BackupUserData clientTime serialized answer \<Rightarrow> False
        | RestoreBackup captured strategy answer \<Rightarrow> False
        | AutoBackupTick now clientTime serialized answer \<Rightarrow> False
        | _ \<Rightarrow> True"
    using that by (rule perform_keeps_marks)
  have first: "lastSync (syncState (app w)) = None \<longrightarrow>
       \<not> autoBackup_due getTime now w
     \<and> step K getTime (AutoBackupTick now clientTime serialized answer) w = w"
    using due by (simp add: step_def autoBackup_tick_def persist_effects_same)
  have rest: "(auto_backup_succeeds getTime act w \<longrightarrow> lastSync (syncState (app w)) \<noteq> None)
   \<and> (lastSync (syncState (app w)) = None \<and> lastSync (syncState (app (step K getTime act w))) \<noteq> None
        \<longrightarrow> manual_backup_succeeds act w \<or> restore_succeeds act w)"
  proof (cases act)
    case (BackupUserData clientTime serialized answer)
    then show ?thesis
      using backupUserData_marks [of clientTime serialized answer w]
      by (auto simp: step_def app_persist_effects manual_backup_succeeds_def
            auto_backup_succeeds_def restore_succeeds_def split: if_splits)
  next
    case (RestoreBackup captured strategy answer)
    then show ?thesis
      using restoreBackup_marks [of strategy answer captured w]
      by (auto simp: step_def app_persist_effects manual_backup_succeeds_def
            auto_backup_succeeds_def restore_succeeds_def sync_marks_kept_def split: if_splits)
  next
    case (AutoBackupTick n clientTime serialized answer)
    then show ?thesis
      using due [of n]
      by (auto simp: step_def app_persist_effects manual_backup_succeeds_def
            auto_backup_succeeds_def restore_succeeds_def autoBackup_tick_def)
  qed (use other in \<open>auto simp: step_def app_persist_effects
         manual_backup_succeeds_def auto_backup_succeeds_def restore_succeeds_def
         sync_marks_kept_def\<close>)
  show ?thesis
    using first rest by blast
qed

lemma example_world_null_lastSync: "lastSync (syncState (app example_world)) = None"
  by (simp add: example_world_def mount_def setSyncState_def Let_def example_storage_def
        localStorage_clear_def)

theorem autoBackup_needs_lastSync_witness:
  "lastSync (syncState (app example_world)) = None
   \<and> isLoggedIn (syncState (app example_world))
   \<and> isOnline (syncState (app example_world))
   \<and> autoBackup (settings (app example_world)) = Daily
   \<and> step example_constants example_getTime
        (AutoBackupTick 1714694400000 ''2024-05-03T00:00:00.000Z'' (Inr 2048)
           (Echoed (Some ''2024-05-03T00:00:01.000Z''))) example_world
       = example_world
   \<and> lastSync (syncState (app (step example_constants example_getTime
        (BackupUserData ''2024-05-02T08:00:00.000Z'' (Inr 2048) (Echoed (Some ''2024-05-02T08:00:01.000Z'')))
        example_world)))
       = Some ''2024-05-02T08:00:01.000Z''
   \<and> manual_backup_succeeds
        (BackupUserData ''2024-05-02T08:00:00.000Z'' (Inr 2048) (Echoed (Some ''2024-05-02T08:00:01.000Z'')))
        example_world"
proof -
  let ?b = "BackupUserData ''2024-05-02T08:00:00.000Z'' (Inr 2048) (Echoed (Some ''2024-05-02T08:00:01.000Z''))"
  have l: "lastSync (syncState (app (step example_constants example_getTime ?b example_world)))
       = Some ''2024-05-02T08:00:01.000Z''"
    by (simp add: step_def app_persist_effects backupUserData_def example_world_user example_world_env
          cloudDrive_backupUserData_def MAX_PAYLOAD_SIZE_BYTES_def Let_def truthy_string_def setters)
  have e: "isLoggedIn (syncState (app example_world))" "isOnline (syncState (app example_world))"
      "autoBackup (settings (app example_world)) = Daily"
    by (simp_all add: example_world_def mount_def setSyncState_def Let_def example_storage_def
          localStorage_clear_def storage_get_def example_constants_def example_settings_def)
  show ?thesis
    using autoBackup_needs_lastSync [of example_world example_getTime 1714694400000 example_constants
        "''2024-05-03T00:00:00.000Z''" "Inr 2048" "Echoed (Some ''2024-05-03T00:00:01.000Z'')" ?b]
      example_world_null_lastSync l e
    by (simp add: restore_succeeds_def)
qed

end
